theory Spec2Isabelle
  imports Main "HOL-Library.Word"
begin

section \<open>ToxEncryptSave (lib/old/toxencryptsave.js): values, errors and effects\<close>

text \<open>
  The module wraps the functions of libtoxencryptsave, reached through an ffi binding,
  in a class whose every operation has a blocking form (\<open>fooSync\<close>) and a
  non-blocking form (\<open>foo\<close>, taking an optional callback). The model keeps the
  source's functions one by one. What a function does besides returning (calling a
  primitive of the library, evaluating \<open>new Buffer(n)\<close>, calling the caller's
  callback) is appended to a trace of events, in the order of execution.
\<close>

type_synonym byte = "8 word"
type_synonym buffer = "byte list"
type_synonym handle = nat

text \<open>JavaScript values that the operations return or hand to a callback.\<close>

datatype jsvalue =
    Undefined
  | Null
  | Boolean bool
  | Number int
  | Text string
  | Buffer buffer

text \<open>
  Error objects. \<open>Error m\<close> is \<open>new Error(m)\<close>: an object whose only content is
  its message. \<open>RangeError m\<close> is what a runtime that refuses a negative size throws
  from \<open>new Buffer(n)\<close>, and \<open>TypeError m\<close> what the binding throws when it is
  given no callback function.
\<close>

datatype js_error =
    Error string
  | RangeError string
  | TypeError string
  | NonZeroReturnError string jsvalue
  | ReturnError string jsvalue jsvalue

text \<open>
  Modelled from the spec: \<open>errors.createNonZeroReturnError\<close> and
  \<open>errors.createReturnError\<close> of lib/old/errors.js, which is not among the source
  files. Section 4.4 of the specification gives them as
  \<open>NonZeroReturnError(operation, code)\<close> and
  \<open>ReturnMismatchError(operation, actualBytesWritten, expectedLength)\<close>, errors that
  carry their arguments as fields.
\<close>

definition createNonZeroReturnError :: "string \<Rightarrow> jsvalue \<Rightarrow> js_error" where
  "createNonZeroReturnError fname val = NonZeroReturnError fname val"

definition createReturnError :: "string \<Rightarrow> jsvalue \<Rightarrow> jsvalue \<Rightarrow> js_error" where
  "createReturnError fname val expected = ReturnError fname val expected"

text \<open>
  Modelled from the spec: \<open>consts.TOX_SALT_LENGTH\<close> of lib/old/consts.js, which is
  not among the source files; section 8 of the specification gives the value 32.
\<close>

definition TOX_SALT_LENGTH :: int where
  "TOX_SALT_LENGTH = 32"

datatype event =
    Call string
  | Alloc int
  | Handler "js_error option" jsvalue
  | Uncaught js_error

type_synonym trace = "event list"

text \<open>
  A blocking computation: from the trace so far to a thrown error (\<open>Inl\<close>) or a
  returned value (\<open>Inr\<close>), and the extended trace.
\<close>

type_synonym 'a sync = "trace \<Rightarrow> (js_error + 'a) \<times> trace"

text \<open>
  A callback \<open>function(err, res)\<close>: \<open>None\<close> is a falsy first argument (null or
  undefined). Calling it extends the trace.
\<close>

type_synonym callback = "js_error option \<Rightarrow> jsvalue \<Rightarrow> trace \<Rightarrow> trace"

text \<open>
  The caller's completion handler as the model observes it: each call is recorded
  with its two arguments.
\<close>

definition handler :: callback where
  "handler err res tr = tr @ [Handler err res]"

subsection \<open>Buffers\<close>

text \<open>
  Arguments documented as \<open>(Buffer|String)\<close>. The source's
  \<open>if(_.isString(x)) x = new Buffer(x)\<close> is \<open>asBuffer\<close>: a string becomes its
  UTF-8 bytes (one byte below code 128, two from 128 to 255).
\<close>

datatype data = Str string | Buf buffer

definition utf8 :: "char \<Rightarrow> buffer" where
  "utf8 c = (let n = (of_char c :: nat) in
     if n < 128 then [of_nat n]
     else [of_nat (192 + n div 64), of_nat (128 + n mod 64)])"

fun asBuffer :: "data \<Rightarrow> buffer" where
  "asBuffer (Str s) = concat (map utf8 s)"
| "asBuffer (Buf b) = b"

text \<open>
  \<open>new Buffer(n)\<close>. The source asks for sizes that can be negative
  (\<open>data.length - extraLength\<close>), and what the runtime does then changed between
  Node releases: the older ones, current when the module was written, turn a negative
  size into an empty buffer; the later ones throw a RangeError from the constructor.
  Both are modelled; the runtime says which.
  The bytes of a fresh buffer are uninitialised memory; the model fills them with 0
  and no statement below depends on them.
\<close>

datatype runtime = ClampNegativeSize | RejectNegativeSize

definition newBuffer :: "runtime \<Rightarrow> int \<Rightarrow> buffer sync" where
  "newBuffer rt n tr =
     (if n < 0 \<and> rt = RejectNegativeSize
      then (Inl (RangeError ''The size argument must not be negative''), tr @ [Alloc n])
      else (Inr (replicate (nat n) 0), tr @ [Alloc n]))"

text \<open>
  A primitive writes its output into the buffer it is given. The model of a primitive
  returns the bytes it writes; \<open>written\<close> puts them at the start of the buffer, whose
  length stays what it was.
\<close>

definition written :: "buffer \<Rightarrow> buffer \<Rightarrow> buffer" where
  "written outBuffer bytes = take (length outBuffer) (bytes @ drop (length bytes) outBuffer)"

subsection \<open>The library object\<close>

text \<open>
  The object \<open>ffi.Library\<close> returns, one field per declared function
  (\<open>createLibrary\<close>). \<open>int\<close> and \<open>uint32\<close> results are integers, the latter
  natural numbers. A function with an output pointer returns its status and the bytes
  it writes there. \<open>async_error\<close> is the error, if any, that the binding hands to the
  callback of \<open>f.async(...)\<close> instead of a result.
\<close>

record library =
  tox_pass_encryption_extra_length :: int
  tox_pass_key_length :: int
  tox_pass_salt_length :: int
  tox_encrypted_size :: "handle option \<Rightarrow> nat"
  tox_pass_encrypt :: "buffer \<Rightarrow> nat \<Rightarrow> buffer \<Rightarrow> nat \<Rightarrow> buffer \<Rightarrow> int \<times> buffer"
  tox_encrypted_save :: "handle option \<Rightarrow> buffer \<Rightarrow> buffer \<Rightarrow> nat \<Rightarrow> int \<times> buffer"
  tox_pass_decrypt :: "buffer \<Rightarrow> nat \<Rightarrow> buffer \<Rightarrow> nat \<Rightarrow> buffer \<Rightarrow> int \<times> buffer"
  tox_encrypted_load :: "handle option \<Rightarrow> buffer \<Rightarrow> nat \<Rightarrow> buffer \<Rightarrow> nat \<Rightarrow> int"
  tox_derive_key_from_pass :: "buffer \<Rightarrow> nat \<Rightarrow> buffer \<Rightarrow> int \<times> buffer"
  tox_derive_key_with_salt :: "buffer \<Rightarrow> nat \<Rightarrow> buffer \<Rightarrow> buffer \<Rightarrow> int \<times> buffer"
  tox_get_salt :: "buffer \<Rightarrow> buffer \<Rightarrow> int \<times> buffer"
  tox_pass_key_encrypt :: "buffer \<Rightarrow> nat \<Rightarrow> buffer \<Rightarrow> buffer \<Rightarrow> int \<times> buffer"
  tox_encrypted_key_save :: "handle option \<Rightarrow> buffer \<Rightarrow> buffer \<Rightarrow> int \<times> buffer"
  tox_pass_key_decrypt :: "buffer \<Rightarrow> nat \<Rightarrow> buffer \<Rightarrow> buffer \<Rightarrow> int \<times> buffer"
  tox_encrypted_key_load :: "handle option \<Rightarrow> buffer \<Rightarrow> nat \<Rightarrow> buffer \<Rightarrow> int"
  tox_is_data_encrypted :: "buffer \<Rightarrow> int"
  async_error :: "string \<Rightarrow> js_error option"

text \<open>
  \<open>lib.f(args)\<close>: the primitive named \<open>f\<close> is called and its result returned.
\<close>

definition ffi_call :: "string \<Rightarrow> 'a \<Rightarrow> 'a sync" where
  "ffi_call fname res tr = (Inr res, tr @ [Call fname])"

text \<open>
  \<open>lib.f.async(args, cb)\<close> with a function \<open>cb\<close>: the call goes through the
  binding, which later calls \<open>cb(err)\<close> when it failed and \<open>cb(null, res)\<close>
  otherwise, once.
\<close>

definition async_call :: "library \<Rightarrow> string \<Rightarrow> jsvalue \<Rightarrow> callback \<Rightarrow> trace \<Rightarrow> trace" where
  "async_call lib fname res k tr =
     (case async_error lib fname of
        Some e \<Rightarrow> k (Some e) Undefined (tr @ [Call fname])
      | None \<Rightarrow> k None res (tr @ [Call fname]))"

text \<open>
  \<open>lib.f.async(args, cb)\<close> where \<open>cb\<close> is whatever the caller handed over. The
  binding checks its last argument first: when that is not a function it throws a
  TypeError and the primitive is not called. (The wording of the binding's message is
  not modelled.) Where the source writes a function literal in the callback position
  the check passes and the call is \<open>async_call\<close>; the four length and size queries
  hand on their own callback parameter, and their call is \<open>ffi_async\<close>.
\<close>

definition ffi_async :: "library \<Rightarrow> string \<Rightarrow> jsvalue \<Rightarrow> callback option \<Rightarrow> unit sync" where
  "ffi_async lib fname res cb tr =
     (case cb of
        None \<Rightarrow> (Inl (TypeError ''Expected a callback function''), tr)
      | Some k \<Rightarrow> (Inr (), async_call lib fname res k tr))"

text \<open>
  The content of an output buffer when the callback of an asynchronous call runs: the
  primitive's bytes are in it unless the binding failed.
\<close>

definition async_written :: "library \<Rightarrow> string \<Rightarrow> buffer \<Rightarrow> buffer \<Rightarrow> buffer" where
  "async_written lib fname outBuffer bytes =
     (case async_error lib fname of Some e \<Rightarrow> outBuffer | None \<Rightarrow> written outBuffer bytes)"

subsection \<open>The instance and its constructor\<close>

text \<open>
  An Isabelle name cannot begin with an underscore: the fields \<open>this._tox\<close>,
  \<open>this._libpath\<close>, \<open>this._sync\<close> and \<open>this._toxencryptsave\<close> are
  \<open>this_tox\<close>, \<open>this_libpath\<close>, \<open>this_sync\<close> and
  \<open>this_toxencryptsave\<close>, and the methods \<open>_useSync\<close>,
  \<open>_checkHandle\<close>, \<open>_checkHandleSync\<close> and \<open>_createNoHandleError\<close> are
  written without it.
\<close>

record tox =
  handle :: "handle option"

record encryptsave =
  this_tox :: "tox option"
  this_libpath :: "string option"
  this_sync :: bool
  this_toxencryptsave :: library

record options =
  path :: "string option"
  sync :: jsvalue

datatype argument = Absent | ToxInstance tox | Object options

fun instanceofTox :: "argument \<Rightarrow> bool" where
  "instanceofTox (ToxInstance t) = True"
| "instanceofTox _ = False"

fun truthy :: "jsvalue \<Rightarrow> bool" where
  "truthy Undefined = False"
| "truthy Null = False"
| "truthy (Boolean b) = b"
| "truthy (Number n) = (n \<noteq> 0)"
| "truthy (Text s) = (s \<noteq> [])"
| "truthy (Buffer b) = True"

text \<open>
  \<open>opts['path']\<close> and \<open>opts['sync']\<close>; an argument that is not an options object
  has neither property.
\<close>

fun opts_path :: "argument \<Rightarrow> string option" where
  "opts_path (Object opts) = path opts"
| "opts_path _ = None"

fun opts_sync :: "argument \<Rightarrow> jsvalue" where
  "opts_sync (Object opts) = sync opts"
| "opts_sync _ = Undefined"

fun the_tox :: "argument \<Rightarrow> tox option" where
  "the_tox (ToxInstance t) = Some t"
| "the_tox _ = None"

definition argument_at :: "argument list \<Rightarrow> nat \<Rightarrow> argument" where
  "argument_at arguments i = (if i < length arguments then arguments ! i else Absent)"

text \<open>\<open>ffi\<close> stands for \<open>ffi.Library\<close>: the library found at a path.\<close>

definition createLibrary :: "(string \<Rightarrow> library) \<Rightarrow> string option \<Rightarrow> library" where
  "createLibrary ffi libpath =
     ffi (case libpath of
            None \<Rightarrow> ''libtoxencryptsave''
          | Some p \<Rightarrow> if p = [] then ''libtoxencryptsave'' else p)"

definition ToxEncryptSave :: "(string \<Rightarrow> library) \<Rightarrow> argument list \<Rightarrow> encryptsave" where
  "ToxEncryptSave ffi arguments =
     (let tox0 = argument_at arguments 0;
          opts0 = argument_at arguments 1;
          swap = (length arguments = 1 \<and> \<not> instanceofTox tox0);
          opts1 = (if swap then tox0 else opts0);
          tox1 = (if swap then Absent else tox0);
          tox2 = (if \<not> instanceofTox tox1 then Absent else tox1);
          libpath = opts_path opts1;
          s = (if opts_sync opts1 = Undefined \<or> opts_sync opts1 = Null then True
               else truthy (opts_sync opts1))
      in \<lparr> this_tox = the_tox tox2, this_libpath = libpath, this_sync = s,
           this_toxencryptsave = createLibrary ffi libpath \<rparr>)"

text \<open>
  Modelled from the spec: \<open>sync.hasCallback\<close> of lib/old/sync.js, which is not among
  the source files. Section 4.3 of the specification has the dispatcher ask whether a
  completion handler was supplied by the caller.
\<close>

definition hasCallback :: "callback option \<Rightarrow> bool" where
  "hasCallback cb = (cb \<noteq> None)"

definition useSync :: "encryptsave \<Rightarrow> callback option \<Rightarrow> bool" where
  "useSync this cb = (this_sync this \<and> \<not> hasCallback cb)"

definition getLibrary :: "encryptsave \<Rightarrow> library" where
  "getLibrary this = this_toxencryptsave this"

definition getHandle :: "encryptsave \<Rightarrow> handle option" where
  "getHandle this = (case this_tox this of None \<Rightarrow> None | Some t \<Rightarrow> handle t)"

definition createNoHandleError :: js_error where
  "createNoHandleError = Error ''No handle''"

text \<open>
  \<open>_checkHandle(callback)\<close> returns a boolean and may call the callback; the pair is
  the boolean and the trace after it.
\<close>

definition checkHandle :: "encryptsave \<Rightarrow> callback option \<Rightarrow> trace \<Rightarrow> bool \<times> trace" where
  "checkHandle this cb tr =
     (case cb of
        Some k \<Rightarrow> if getHandle this = None then (False, k (Some createNoHandleError) Undefined tr)
                  else (True, tr)
      | None \<Rightarrow> (True, tr))"

definition checkHandleSync :: "encryptsave \<Rightarrow> unit sync" where
  "checkHandleSync this tr =
     (if getHandle this = None then (Inl createNoHandleError, tr) else (Inr (), tr))"

text \<open>Sequencing of blocking steps: a thrown error ends the function.\<close>

definition andThen :: "'a sync \<Rightarrow> ('a \<Rightarrow> 'b sync) \<Rightarrow> 'b sync" where
  "andThen m f tr = (case m tr of (Inl e, tr') \<Rightarrow> (Inl e, tr') | (Inr x, tr') \<Rightarrow> f x tr')"

definition return :: "'a \<Rightarrow> 'a sync" where
  "return x tr = (Inr x, tr)"

definition throw :: "js_error \<Rightarrow> 'a sync" where
  "throw e tr = (Inl e, tr)"

text \<open>
  What a non-blocking function gives back when it delegates to its blocking twin
  (\<open>return fooSync.apply(this, arguments)\<close>) and when it does not (\<open>undefined\<close>).
\<close>

definition delegated :: "('a \<Rightarrow> jsvalue) \<Rightarrow> 'a sync \<Rightarrow> jsvalue sync" where
  "delegated wrap m tr = (case m tr of (Inl e, tr') \<Rightarrow> (Inl e, tr') | (Inr x, tr') \<Rightarrow> (Inr (wrap x), tr'))"

definition started :: "trace \<Rightarrow> (js_error + jsvalue) \<times> trace" where
  "started tr = (Inr Undefined, tr)"

text \<open>
  Two idioms of the callbacks: \<open>if(callback) { callback(err, x); }\<close>, and
  \<open>if(!err && res !== 0) { err = createNonZeroReturnError(fname, res); }\<close>.
\<close>

definition ifCallback :: "callback option \<Rightarrow> js_error option \<Rightarrow> jsvalue \<Rightarrow> trace \<Rightarrow> trace" where
  "ifCallback cb err x tr = (case cb of Some k \<Rightarrow> k err x tr | None \<Rightarrow> tr)"

definition nonZero :: "string \<Rightarrow> js_error option \<Rightarrow> jsvalue \<Rightarrow> js_error option" where
  "nonZero fname err res =
     (if err = None \<and> res \<noteq> Number 0 then Some (createNonZeroReturnError fname res) else err)"

text \<open>
  \<open>if(!err && res !== outBuffer.length) { err = createReturnError(fname, res, outBuffer.length); }\<close>
\<close>

definition mismatch :: "string \<Rightarrow> buffer \<Rightarrow> js_error option \<Rightarrow> jsvalue \<Rightarrow> js_error option" where
  "mismatch fname outBuffer err res =
     (if err = None \<and> res \<noteq> Number (int (length outBuffer))
      then Some (createReturnError fname res (Number (int (length outBuffer)))) else err)"

text \<open>
  The number a callback received as its result. The binding hands over a number
  whenever the error is falsy, and the callbacks read the result only then.
\<close>

fun numberOf :: "jsvalue \<Rightarrow> int" where
  "numberOf (Number n) = n"
| "numberOf _ = 0"

section \<open>The operations\<close>

text \<open>
  Every non-blocking function of the source begins with
  \<open>if(this._useSync(arguments)) { return fooSync.apply(this, arguments); }\<close>.
  The model has three definitions per operation: \<open>fooSync\<close>, the blocking
  function; \<open>foo_async\<close>, the rest of the body of \<open>foo\<close> after that first
  statement; and \<open>foo\<close>, the entry point that chooses between them. A
  non-blocking body returns \<open>undefined\<close> at once and its callbacks run later; the
  trace lists all its events, those after the return included, in the order they
  happen. The bodies of the four length and size queries can throw at once (the
  binding's TypeError for a missing callback), so they are blocking computations of
  no value; the other bodies give the binding a function and are given by their trace.
\<close>

subsection \<open>Length and size queries\<close>

definition getEncryptionExtraLengthSync :: "encryptsave \<Rightarrow> int sync" where
  "getEncryptionExtraLengthSync this =
     ffi_call ''tox_pass_encryption_extra_length''
       (tox_pass_encryption_extra_length (getLibrary this))"

definition getEncryptionExtraLength_async :: "encryptsave \<Rightarrow> callback option \<Rightarrow> unit sync" where
  "getEncryptionExtraLength_async this cb =
     ffi_async (getLibrary this) ''tox_pass_encryption_extra_length''
       (Number (tox_pass_encryption_extra_length (getLibrary this))) cb"

definition getEncryptionExtraLength :: "encryptsave \<Rightarrow> callback option \<Rightarrow> jsvalue sync" where
  "getEncryptionExtraLength this cb tr =
     (if useSync this cb then delegated Number (getEncryptionExtraLengthSync this) tr
      else delegated (\<lambda>_. Undefined) (getEncryptionExtraLength_async this cb) tr)"

definition getKeyLengthSync :: "encryptsave \<Rightarrow> int sync" where
  "getKeyLengthSync this =
     ffi_call ''tox_pass_key_length'' (tox_pass_key_length (getLibrary this))"

definition getKeyLength_async :: "encryptsave \<Rightarrow> callback option \<Rightarrow> unit sync" where
  "getKeyLength_async this cb =
     ffi_async (getLibrary this) ''tox_pass_key_length''
       (Number (tox_pass_key_length (getLibrary this))) cb"

definition getKeyLength :: "encryptsave \<Rightarrow> callback option \<Rightarrow> jsvalue sync" where
  "getKeyLength this cb tr =
     (if useSync this cb then delegated Number (getKeyLengthSync this) tr
      else delegated (\<lambda>_. Undefined) (getKeyLength_async this cb) tr)"

definition getSaltLengthSync :: "encryptsave \<Rightarrow> int sync" where
  "getSaltLengthSync this =
     ffi_call ''tox_pass_salt_length'' (tox_pass_salt_length (getLibrary this))"

definition getSaltLength_async :: "encryptsave \<Rightarrow> callback option \<Rightarrow> unit sync" where
  "getSaltLength_async this cb =
     ffi_async (getLibrary this) ''tox_pass_salt_length''
       (Number (tox_pass_salt_length (getLibrary this))) cb"

definition getSaltLength :: "encryptsave \<Rightarrow> callback option \<Rightarrow> jsvalue sync" where
  "getSaltLength this cb tr =
     (if useSync this cb then delegated Number (getSaltLengthSync this) tr
      else delegated (\<lambda>_. Undefined) (getSaltLength_async this cb) tr)"

definition getEncryptedSizeSync :: "encryptsave \<Rightarrow> nat sync" where
  "getEncryptedSizeSync this =
     andThen (checkHandleSync this) (\<lambda>_.
       ffi_call ''tox_encrypted_size'' (tox_encrypted_size (getLibrary this) (getHandle this)))"

definition getEncryptedSize_async :: "encryptsave \<Rightarrow> callback option \<Rightarrow> unit sync" where
  "getEncryptedSize_async this cb tr =
     (case checkHandle this cb tr of
        (False, tr1) \<Rightarrow> (Inr (), tr1)
      | (True, tr1) \<Rightarrow>
          ffi_async (getLibrary this) ''tox_encrypted_size''
            (Number (int (tox_encrypted_size (getLibrary this) (getHandle this)))) cb tr1)"

definition getEncryptedSize :: "encryptsave \<Rightarrow> callback option \<Rightarrow> jsvalue sync" where
  "getEncryptedSize this cb tr =
     (if useSync this cb then delegated (\<lambda>n. Number (int n)) (getEncryptedSizeSync this) tr
      else delegated (\<lambda>_. Undefined) (getEncryptedSize_async this cb) tr)"

subsection \<open>Encrypting and decrypting with a passphrase\<close>

definition passEncryptSync :: "runtime \<Rightarrow> encryptsave \<Rightarrow> data \<Rightarrow> data \<Rightarrow> buffer sync" where
  "passEncryptSync rt this data0 passphrase0 =
     (let data = asBuffer data0; passphrase = asBuffer passphrase0 in
      andThen (getEncryptionExtraLengthSync this) (\<lambda>extraLength.
      andThen (newBuffer rt (int (length data) + extraLength)) (\<lambda>outBuffer.
      andThen (ffi_call ''tox_pass_encrypt''
                (tox_pass_encrypt (getLibrary this) data (length data)
                   passphrase (length passphrase) outBuffer)) (\<lambda>(res, bytes).
      if res \<noteq> 0 then throw (createNonZeroReturnError ''tox_pass_encrypt'' (Number res))
      else return (written outBuffer bytes)))))"

definition passEncrypt_async ::
  "runtime \<Rightarrow> encryptsave \<Rightarrow> data \<Rightarrow> data \<Rightarrow> callback option \<Rightarrow> trace \<Rightarrow> trace" where
  "passEncrypt_async rt this data0 passphrase0 cb tr =
     (let data = asBuffer data0; passphrase = asBuffer passphrase0 in
      snd (getEncryptionExtraLength this (Some (\<lambda>err extraLength tr1.
        if err = None then
          (case newBuffer rt (int (length data) + numberOf extraLength) tr1 of
             (Inl e, tr2) \<Rightarrow> tr2 @ [Uncaught e]
           | (Inr outBuffer, tr2) \<Rightarrow>
               (case tox_pass_encrypt (getLibrary this) data (length data)
                       passphrase (length passphrase) outBuffer of
                  (code, bytes) \<Rightarrow>
                    async_call (getLibrary this) ''tox_pass_encrypt'' (Number code)
                      (\<lambda>err res.
                         ifCallback cb (nonZero ''tox_pass_encrypt'' err res)
                           (Buffer (async_written (getLibrary this) ''tox_pass_encrypt''
                                      outBuffer bytes))) tr2))
        else ifCallback cb err Undefined tr1)) tr))"

definition passEncrypt ::
  "runtime \<Rightarrow> encryptsave \<Rightarrow> data \<Rightarrow> data \<Rightarrow> callback option \<Rightarrow> jsvalue sync" where
  "passEncrypt rt this data passphrase cb tr =
     (if useSync this cb then delegated Buffer (passEncryptSync rt this data passphrase) tr
      else started (passEncrypt_async rt this data passphrase cb tr))"

definition passDecryptSync :: "runtime \<Rightarrow> encryptsave \<Rightarrow> data \<Rightarrow> data \<Rightarrow> buffer sync" where
  "passDecryptSync rt this data0 passphrase0 =
     (let data = asBuffer data0; passphrase = asBuffer passphrase0 in
      andThen (getEncryptionExtraLengthSync this) (\<lambda>extraLength.
      andThen (newBuffer rt (int (length data) - extraLength)) (\<lambda>outBuffer.
      andThen (ffi_call ''tox_pass_decrypt''
                (tox_pass_decrypt (getLibrary this) data (length data)
                   passphrase (length passphrase) outBuffer)) (\<lambda>(res, bytes).
      if res \<noteq> int (length outBuffer)
      then throw (createReturnError ''tox_pass_decrypt'' (Number res)
                    (Number (int (length outBuffer))))
      else return (written outBuffer bytes)))))"

definition passDecrypt_async ::
  "runtime \<Rightarrow> encryptsave \<Rightarrow> data \<Rightarrow> data \<Rightarrow> callback option \<Rightarrow> trace \<Rightarrow> trace" where
  "passDecrypt_async rt this data0 passphrase0 cb tr =
     (let data = asBuffer data0; passphrase = asBuffer passphrase0 in
      snd (getEncryptionExtraLength this (Some (\<lambda>err extraLength tr1.
        if err = None then
          (case newBuffer rt (int (length data) - numberOf extraLength) tr1 of
             (Inl e, tr2) \<Rightarrow> tr2 @ [Uncaught e]
           | (Inr outBuffer, tr2) \<Rightarrow>
               (case tox_pass_decrypt (getLibrary this) data (length data)
                       passphrase (length passphrase) outBuffer of
                  (code, bytes) \<Rightarrow>
                    async_call (getLibrary this) ''tox_pass_decrypt'' (Number code)
                      (\<lambda>err res.
                         ifCallback cb (mismatch ''tox_pass_decrypt'' outBuffer err res)
                           (Buffer (async_written (getLibrary this) ''tox_pass_decrypt''
                                      outBuffer bytes))) tr2))
        else ifCallback cb err Undefined tr1)) tr))"

definition passDecrypt ::
  "runtime \<Rightarrow> encryptsave \<Rightarrow> data \<Rightarrow> data \<Rightarrow> callback option \<Rightarrow> jsvalue sync" where
  "passDecrypt rt this data passphrase cb tr =
     (if useSync this cb then delegated Buffer (passDecryptSync rt this data passphrase) tr
      else started (passDecrypt_async rt this data passphrase cb tr))"

subsection \<open>Loading and saving through the handle, with a passphrase\<close>

definition encryptedLoadSync :: "encryptsave \<Rightarrow> data \<Rightarrow> data \<Rightarrow> unit sync" where
  "encryptedLoadSync this data0 passphrase0 =
     andThen (checkHandleSync this) (\<lambda>_.
     (let data = asBuffer data0; passphrase = asBuffer passphrase0 in
      andThen (ffi_call ''tox_encrypted_load''
                (tox_encrypted_load (getLibrary this) (getHandle this) data (length data)
                   passphrase (length passphrase))) (\<lambda>result.
      if result \<noteq> 0 then throw (createNonZeroReturnError ''tox_encrypted_load'' (Number result))
      else return ())))"

definition encryptedLoad_async ::
  "encryptsave \<Rightarrow> data \<Rightarrow> data \<Rightarrow> callback option \<Rightarrow> trace \<Rightarrow> trace" where
  "encryptedLoad_async this data0 passphrase0 cb tr =
     (case checkHandle this cb tr of
        (False, tr1) \<Rightarrow> tr1
      | (True, tr1) \<Rightarrow>
          (let data = asBuffer data0; passphrase = asBuffer passphrase0 in
           async_call (getLibrary this) ''tox_encrypted_load''
             (Number (tox_encrypted_load (getLibrary this) (getHandle this) data (length data)
                        passphrase (length passphrase)))
             (\<lambda>err res. ifCallback cb (nonZero ''tox_encrypted_load'' err res) Undefined)
             tr1))"

definition encryptedLoad ::
  "encryptsave \<Rightarrow> data \<Rightarrow> data \<Rightarrow> callback option \<Rightarrow> jsvalue sync" where
  "encryptedLoad this data passphrase cb tr =
     (if useSync this cb then delegated (\<lambda>_. Undefined) (encryptedLoadSync this data passphrase) tr
      else started (encryptedLoad_async this data passphrase cb tr))"

definition encryptedSaveSync :: "runtime \<Rightarrow> encryptsave \<Rightarrow> data \<Rightarrow> buffer sync" where
  "encryptedSaveSync rt this passphrase0 =
     andThen (checkHandleSync this) (\<lambda>_.
     (let passphrase = asBuffer passphrase0 in
      andThen (getEncryptedSizeSync this) (\<lambda>encSize.
      andThen (newBuffer rt (int encSize)) (\<lambda>outBuffer.
      andThen (ffi_call ''tox_encrypted_save''
                (tox_encrypted_save (getLibrary this) (getHandle this) outBuffer
                   passphrase (length passphrase))) (\<lambda>(result, bytes).
      if result \<noteq> 0 then throw (createNonZeroReturnError ''tox_encrypted_save'' (Number result))
      else return (written outBuffer bytes))))))"

definition encryptedSave_async ::
  "runtime \<Rightarrow> encryptsave \<Rightarrow> data \<Rightarrow> callback option \<Rightarrow> trace \<Rightarrow> trace" where
  "encryptedSave_async rt this passphrase0 cb tr =
     (case checkHandle this cb tr of
        (False, tr0) \<Rightarrow> tr0
      | (True, tr0) \<Rightarrow>
          (let passphrase = asBuffer passphrase0 in
           snd (getEncryptedSize this (Some (\<lambda>err encSize tr1.
             if err = None then
               (case newBuffer rt (numberOf encSize) tr1 of
                  (Inl e, tr2) \<Rightarrow> tr2 @ [Uncaught e]
                | (Inr outBuffer, tr2) \<Rightarrow>
                    (case tox_encrypted_save (getLibrary this) (getHandle this) outBuffer
                            passphrase (length passphrase) of
                       (code, bytes) \<Rightarrow>
                         async_call (getLibrary this) ''tox_encrypted_save'' (Number code)
                           (\<lambda>err res.
                              ifCallback cb (nonZero ''tox_encrypted_save'' err res)
                                (Buffer (async_written (getLibrary this) ''tox_encrypted_save''
                                           outBuffer bytes))) tr2))
             else ifCallback cb err Undefined tr1)) tr0)))"

definition encryptedSave ::
  "runtime \<Rightarrow> encryptsave \<Rightarrow> data \<Rightarrow> callback option \<Rightarrow> jsvalue sync" where
  "encryptedSave rt this passphrase cb tr =
     (if useSync this cb then delegated Buffer (encryptedSaveSync rt this passphrase) tr
      else started (encryptedSave_async rt this passphrase cb tr))"

subsection \<open>Key derivation and salt extraction\<close>

definition deriveKeyFromPassSync :: "runtime \<Rightarrow> encryptsave \<Rightarrow> data \<Rightarrow> buffer sync" where
  "deriveKeyFromPassSync rt this passphrase0 =
     (let passphrase = asBuffer passphrase0 in
      andThen (getKeyLengthSync this) (\<lambda>keyLength.
      andThen (newBuffer rt keyLength) (\<lambda>outBuffer.
      andThen (ffi_call ''tox_derive_key_from_pass''
                (tox_derive_key_from_pass (getLibrary this) passphrase (length passphrase)
                   outBuffer)) (\<lambda>(result, bytes).
      if result \<noteq> 0
      then throw (createNonZeroReturnError ''tox_derive_key_from_pass'' (Number result))
      else return (written outBuffer bytes)))))"

definition deriveKeyFromPass_async ::
  "runtime \<Rightarrow> encryptsave \<Rightarrow> data \<Rightarrow> callback option \<Rightarrow> trace \<Rightarrow> trace" where
  "deriveKeyFromPass_async rt this passphrase0 cb tr =
     snd (getKeyLength this (Some (\<lambda>err keyLength tr1.
       if err = None then
         (case newBuffer rt (numberOf keyLength) tr1 of
            (Inl e, tr2) \<Rightarrow> tr2 @ [Uncaught e]
          | (Inr outBuffer, tr2) \<Rightarrow>
              (let passphrase = asBuffer passphrase0 in
               case tox_derive_key_from_pass (getLibrary this) passphrase (length passphrase)
                      outBuffer of
                 (code, bytes) \<Rightarrow>
                   async_call (getLibrary this) ''tox_derive_key_from_pass'' (Number code)
                     (\<lambda>err res.
                        ifCallback cb (nonZero ''tox_derive_key_from_pass'' err res)
                          (Buffer (async_written (getLibrary this) ''tox_derive_key_from_pass''
                                     outBuffer bytes))) tr2))
       else ifCallback cb err Undefined tr1)) tr)"

definition deriveKeyFromPass ::
  "runtime \<Rightarrow> encryptsave \<Rightarrow> data \<Rightarrow> callback option \<Rightarrow> jsvalue sync" where
  "deriveKeyFromPass rt this passphrase cb tr =
     (if useSync this cb then delegated Buffer (deriveKeyFromPassSync rt this passphrase) tr
      else started (deriveKeyFromPass_async rt this passphrase cb tr))"

definition deriveKeyWithSaltSync ::
  "runtime \<Rightarrow> encryptsave \<Rightarrow> data \<Rightarrow> buffer \<Rightarrow> buffer sync" where
  "deriveKeyWithSaltSync rt this passphrase0 salt =
     (let passphrase = asBuffer passphrase0 in
      andThen (getKeyLengthSync this) (\<lambda>keyLength.
      andThen (newBuffer rt keyLength) (\<lambda>outBuffer.
      andThen (ffi_call ''tox_derive_key_with_salt''
                (tox_derive_key_with_salt (getLibrary this) passphrase (length passphrase)
                   salt outBuffer)) (\<lambda>(result, bytes).
      if result \<noteq> 0
      then throw (createNonZeroReturnError ''tox_derive_key_with_salt'' (Number result))
      else return (written outBuffer bytes)))))"

definition deriveKeyWithSalt_async ::
  "runtime \<Rightarrow> encryptsave \<Rightarrow> data \<Rightarrow> buffer \<Rightarrow> callback option \<Rightarrow> trace \<Rightarrow> trace" where
  "deriveKeyWithSalt_async rt this passphrase0 salt cb tr =
     snd (getKeyLength this (Some (\<lambda>err keyLength tr1.
       if err = None then
         (case newBuffer rt (numberOf keyLength) tr1 of
            (Inl e, tr2) \<Rightarrow> tr2 @ [Uncaught e]
          | (Inr outBuffer, tr2) \<Rightarrow>
              (let passphrase = asBuffer passphrase0 in
               case tox_derive_key_with_salt (getLibrary this) passphrase (length passphrase)
                      salt outBuffer of
                 (code, bytes) \<Rightarrow>
                   async_call (getLibrary this) ''tox_derive_key_with_salt'' (Number code)
                     (\<lambda>err res.
                        ifCallback cb (nonZero ''tox_derive_key_with_salt'' err res)
                          (Buffer (async_written (getLibrary this) ''tox_derive_key_with_salt''
                                     outBuffer bytes))) tr2))
       else ifCallback cb err Undefined tr1)) tr)"

definition deriveKeyWithSalt ::
  "runtime \<Rightarrow> encryptsave \<Rightarrow> data \<Rightarrow> buffer \<Rightarrow> callback option \<Rightarrow> jsvalue sync" where
  "deriveKeyWithSalt rt this passphrase salt cb tr =
     (if useSync this cb then delegated Buffer (deriveKeyWithSaltSync rt this passphrase salt) tr
      else started (deriveKeyWithSalt_async rt this passphrase salt cb tr))"

definition getSaltSync :: "runtime \<Rightarrow> encryptsave \<Rightarrow> buffer \<Rightarrow> buffer sync" where
  "getSaltSync rt this data =
     andThen (newBuffer rt TOX_SALT_LENGTH) (\<lambda>saltBuffer.
     andThen (ffi_call ''tox_get_salt'' (tox_get_salt (getLibrary this) data saltBuffer))
       (\<lambda>(result, bytes).
     if result \<noteq> 0 then throw (createNonZeroReturnError ''tox_get_salt'' (Number result))
     else return (written saltBuffer bytes)))"

definition getSalt_async ::
  "runtime \<Rightarrow> encryptsave \<Rightarrow> buffer \<Rightarrow> callback option \<Rightarrow> trace \<Rightarrow> trace" where
  "getSalt_async rt this data cb tr =
     (case newBuffer rt TOX_SALT_LENGTH tr of
        (Inl e, tr1) \<Rightarrow> tr1 @ [Uncaught e]
      | (Inr saltBuffer, tr1) \<Rightarrow>
          (case tox_get_salt (getLibrary this) data saltBuffer of
             (code, bytes) \<Rightarrow>
               async_call (getLibrary this) ''tox_get_salt'' (Number code)
                 (\<lambda>err res.
                    ifCallback cb (nonZero ''tox_get_salt'' err res)
                      (Buffer (async_written (getLibrary this) ''tox_get_salt''
                                 saltBuffer bytes))) tr1))"

definition getSalt ::
  "runtime \<Rightarrow> encryptsave \<Rightarrow> buffer \<Rightarrow> callback option \<Rightarrow> jsvalue sync" where
  "getSalt rt this data cb tr =
     (if useSync this cb then delegated Buffer (getSaltSync rt this data) tr
      else started (getSalt_async rt this data cb tr))"

subsection \<open>Encrypting and decrypting with a key\<close>

definition passKeyEncryptSync :: "runtime \<Rightarrow> encryptsave \<Rightarrow> data \<Rightarrow> buffer \<Rightarrow> buffer sync" where
  "passKeyEncryptSync rt this data0 key =
     (let data = asBuffer data0 in
      andThen (getEncryptionExtraLengthSync this) (\<lambda>extraLength.
      andThen (newBuffer rt (int (length data) + extraLength)) (\<lambda>outBuffer.
      andThen (ffi_call ''tox_pass_key_encrypt''
                (tox_pass_key_encrypt (getLibrary this) data (length data) key outBuffer))
        (\<lambda>(result, bytes).
      if result \<noteq> 0
      then throw (createNonZeroReturnError ''tox_pass_key_encrypt'' (Number result))
      else return (written outBuffer bytes)))))"

definition passKeyEncrypt_async ::
  "runtime \<Rightarrow> encryptsave \<Rightarrow> data \<Rightarrow> buffer \<Rightarrow> callback option \<Rightarrow> trace \<Rightarrow> trace" where
  "passKeyEncrypt_async rt this data0 key cb tr =
     (let data = asBuffer data0 in
      snd (getEncryptionExtraLength this (Some (\<lambda>err extraLength tr1.
        if err = None then
          (case newBuffer rt (int (length data) + numberOf extraLength) tr1 of
             (Inl e, tr2) \<Rightarrow> tr2 @ [Uncaught e]
           | (Inr outBuffer, tr2) \<Rightarrow>
               (case tox_pass_key_encrypt (getLibrary this) data (length data) key outBuffer of
                  (code, bytes) \<Rightarrow>
                    async_call (getLibrary this) ''tox_pass_key_encrypt'' (Number code)
                      (\<lambda>err res.
                         ifCallback cb (nonZero ''tox_pass_key_encrypt'' err res)
                           (Buffer (async_written (getLibrary this) ''tox_pass_key_encrypt''
                                      outBuffer bytes))) tr2))
        else ifCallback cb err Undefined tr1)) tr))"

definition passKeyEncrypt ::
  "runtime \<Rightarrow> encryptsave \<Rightarrow> data \<Rightarrow> buffer \<Rightarrow> callback option \<Rightarrow> jsvalue sync" where
  "passKeyEncrypt rt this data key cb tr =
     (if useSync this cb then delegated Buffer (passKeyEncryptSync rt this data key) tr
      else started (passKeyEncrypt_async rt this data key cb tr))"

definition passKeyDecryptSync :: "runtime \<Rightarrow> encryptsave \<Rightarrow> buffer \<Rightarrow> buffer \<Rightarrow> buffer sync" where
  "passKeyDecryptSync rt this data key =
     andThen (getEncryptionExtraLengthSync this) (\<lambda>extraLength.
     andThen (newBuffer rt (int (length data) - extraLength)) (\<lambda>outBuffer.
     andThen (ffi_call ''tox_pass_key_decrypt''
               (tox_pass_key_decrypt (getLibrary this) data (length data) key outBuffer))
       (\<lambda>(result, bytes).
     if result \<noteq> int (length outBuffer)
     then throw (createReturnError ''tox_pass_key_decrypt'' (Number result)
                   (Number (int (length outBuffer))))
     else return (written outBuffer bytes))))"

definition passKeyDecrypt_async ::
  "runtime \<Rightarrow> encryptsave \<Rightarrow> buffer \<Rightarrow> buffer \<Rightarrow> callback option \<Rightarrow> trace \<Rightarrow> trace" where
  "passKeyDecrypt_async rt this data key cb tr =
     snd (getEncryptionExtraLength this (Some (\<lambda>err extraLength tr1.
       if err = None then
         (case newBuffer rt (int (length data) - numberOf extraLength) tr1 of
            (Inl e, tr2) \<Rightarrow> tr2 @ [Uncaught e]
          | (Inr outBuffer, tr2) \<Rightarrow>
              (case tox_pass_key_decrypt (getLibrary this) data (length data) key outBuffer of
                 (code, bytes) \<Rightarrow>
                   async_call (getLibrary this) ''tox_pass_key_decrypt'' (Number code)
                     (\<lambda>err res.
                        ifCallback cb (mismatch ''tox_pass_key_decrypt'' outBuffer err res)
                          (Buffer (async_written (getLibrary this) ''tox_pass_key_decrypt''
                                     outBuffer bytes))) tr2))
       else ifCallback cb err Undefined tr1)) tr)"

definition passKeyDecrypt ::
  "runtime \<Rightarrow> encryptsave \<Rightarrow> buffer \<Rightarrow> buffer \<Rightarrow> callback option \<Rightarrow> jsvalue sync" where
  "passKeyDecrypt rt this data key cb tr =
     (if useSync this cb then delegated Buffer (passKeyDecryptSync rt this data key) tr
      else started (passKeyDecrypt_async rt this data key cb tr))"

subsection \<open>Loading and saving through the handle, with a key\<close>

definition encryptedKeySaveSync :: "runtime \<Rightarrow> encryptsave \<Rightarrow> buffer \<Rightarrow> buffer sync" where
  "encryptedKeySaveSync rt this key =
     andThen (checkHandleSync this) (\<lambda>_.
     andThen (getEncryptedSizeSync this) (\<lambda>encSize.
     andThen (newBuffer rt (int encSize)) (\<lambda>outBuffer.
     andThen (ffi_call ''tox_encrypted_key_save''
               (tox_encrypted_key_save (getLibrary this) (getHandle this) outBuffer key))
       (\<lambda>(result, bytes).
     if result \<noteq> 0
     then throw (createNonZeroReturnError ''tox_encrypted_key_save'' (Number result))
     else return (written outBuffer bytes)))))"

definition encryptedKeySave_async ::
  "runtime \<Rightarrow> encryptsave \<Rightarrow> buffer \<Rightarrow> callback option \<Rightarrow> trace \<Rightarrow> trace" where
  "encryptedKeySave_async rt this key cb tr =
     (case checkHandle this cb tr of
        (False, tr0) \<Rightarrow> tr0
      | (True, tr0) \<Rightarrow>
          snd (getEncryptedSize this (Some (\<lambda>err encSize tr1.
            if err = None then
              (case newBuffer rt (numberOf encSize) tr1 of
                 (Inl e, tr2) \<Rightarrow> tr2 @ [Uncaught e]
               | (Inr outBuffer, tr2) \<Rightarrow>
                   (case tox_encrypted_key_save (getLibrary this) (getHandle this) outBuffer key of
                      (code, bytes) \<Rightarrow>
                        async_call (getLibrary this) ''tox_encrypted_key_save'' (Number code)
                          (\<lambda>err res.
                             ifCallback cb (nonZero ''tox_encrypted_key_save'' err res)
                               (Buffer (async_written (getLibrary this) ''tox_encrypted_key_save''
                                          outBuffer bytes))) tr2))
            else ifCallback cb err Undefined tr1)) tr0))"

definition encryptedKeySave ::
  "runtime \<Rightarrow> encryptsave \<Rightarrow> buffer \<Rightarrow> callback option \<Rightarrow> jsvalue sync" where
  "encryptedKeySave rt this key cb tr =
     (if useSync this cb then delegated Buffer (encryptedKeySaveSync rt this key) tr
      else started (encryptedKeySave_async rt this key cb tr))"

definition encryptedKeyLoadSync :: "encryptsave \<Rightarrow> buffer \<Rightarrow> buffer \<Rightarrow> unit sync" where
  "encryptedKeyLoadSync this data key =
     andThen (checkHandleSync this) (\<lambda>_.
     andThen (ffi_call ''tox_encrypted_key_load''
               (tox_encrypted_key_load (getLibrary this) (getHandle this) data (length data) key))
       (\<lambda>result.
     if result \<noteq> 0
     then throw (createNonZeroReturnError ''tox_encrypted_key_load'' (Number result))
     else return ()))"

definition encryptedKeyLoad_async ::
  "encryptsave \<Rightarrow> buffer \<Rightarrow> buffer \<Rightarrow> callback option \<Rightarrow> trace \<Rightarrow> trace" where
  "encryptedKeyLoad_async this data key cb tr =
     (case checkHandle this cb tr of
        (False, tr1) \<Rightarrow> tr1
      | (True, tr1) \<Rightarrow>
          async_call (getLibrary this) ''tox_encrypted_key_load''
            (Number (tox_encrypted_key_load (getLibrary this) (getHandle this) data
                       (length data) key))
            (\<lambda>err res. ifCallback cb (nonZero ''tox_encrypted_key_load'' err res) Undefined)
            tr1)"

definition encryptedKeyLoad ::
  "encryptsave \<Rightarrow> buffer \<Rightarrow> buffer \<Rightarrow> callback option \<Rightarrow> jsvalue sync" where
  "encryptedKeyLoad this data key cb tr =
     (if useSync this cb then delegated (\<lambda>_. Undefined) (encryptedKeyLoadSync this data key) tr
      else started (encryptedKeyLoad_async this data key cb tr))"

subsection \<open>The encrypted-data predicate\<close>

definition isDataEncryptedSync :: "encryptsave \<Rightarrow> buffer \<Rightarrow> bool sync" where
  "isDataEncryptedSync this data =
     andThen (ffi_call ''tox_is_data_encrypted'' (tox_is_data_encrypted (getLibrary this) data))
       (\<lambda>result. return (result = 1))"

definition isDataEncrypted_async ::
  "encryptsave \<Rightarrow> buffer \<Rightarrow> callback option \<Rightarrow> trace \<Rightarrow> trace" where
  "isDataEncrypted_async this data cb tr =
     async_call (getLibrary this) ''tox_is_data_encrypted''
       (Number (tox_is_data_encrypted (getLibrary this) data))
       (\<lambda>err res.
          ifCallback cb err (if err = None then Boolean (res = Number 1) else Undefined))
       tr"

definition isDataEncrypted ::
  "encryptsave \<Rightarrow> buffer \<Rightarrow> callback option \<Rightarrow> jsvalue sync" where
  "isDataEncrypted this data cb tr =
     (if useSync this cb then delegated Boolean (isDataEncryptedSync this data) tr
      else started (isDataEncrypted_async this data cb tr))"

section \<open>The public surface as one table\<close>

text \<open>
  One constructor per public operation with its arguments, the callback apart. The
  three functions below only select the function of that name: its non-blocking
  entry point, its blocking twin, and the trace of the non-blocking body.
\<close>

datatype operation =
    GetEncryptionExtraLength
  | GetKeyLength
  | GetSaltLength
  | GetEncryptedSize
  | PassEncrypt data data
  | PassDecrypt data data
  | EncryptedLoad data data
  | EncryptedSave data
  | DeriveKeyFromPass data
  | DeriveKeyWithSalt data buffer
  | GetSalt buffer
  | PassKeyEncrypt data buffer
  | PassKeyDecrypt buffer buffer
  | EncryptedKeySave buffer
  | EncryptedKeyLoad buffer buffer
  | IsDataEncrypted buffer

fun invoke :: "runtime \<Rightarrow> encryptsave \<Rightarrow> operation \<Rightarrow> callback option \<Rightarrow> jsvalue sync" where
  "invoke rt this GetEncryptionExtraLength = getEncryptionExtraLength this"
| "invoke rt this GetKeyLength = getKeyLength this"
| "invoke rt this GetSaltLength = getSaltLength this"
| "invoke rt this GetEncryptedSize = getEncryptedSize this"
| "invoke rt this (PassEncrypt d p) = passEncrypt rt this d p"
| "invoke rt this (PassDecrypt d p) = passDecrypt rt this d p"
| "invoke rt this (EncryptedLoad d p) = encryptedLoad this d p"
| "invoke rt this (EncryptedSave p) = encryptedSave rt this p"
| "invoke rt this (DeriveKeyFromPass p) = deriveKeyFromPass rt this p"
| "invoke rt this (DeriveKeyWithSalt p s) = deriveKeyWithSalt rt this p s"
| "invoke rt this (GetSalt d) = getSalt rt this d"
| "invoke rt this (PassKeyEncrypt d k) = passKeyEncrypt rt this d k"
| "invoke rt this (PassKeyDecrypt d k) = passKeyDecrypt rt this d k"
| "invoke rt this (EncryptedKeySave k) = encryptedKeySave rt this k"
| "invoke rt this (EncryptedKeyLoad d k) = encryptedKeyLoad this d k"
| "invoke rt this (IsDataEncrypted d) = isDataEncrypted this d"

fun invokeSync :: "runtime \<Rightarrow> encryptsave \<Rightarrow> operation \<Rightarrow> jsvalue sync" where
  "invokeSync rt this GetEncryptionExtraLength = delegated Number (getEncryptionExtraLengthSync this)"
| "invokeSync rt this GetKeyLength = delegated Number (getKeyLengthSync this)"
| "invokeSync rt this GetSaltLength = delegated Number (getSaltLengthSync this)"
| "invokeSync rt this GetEncryptedSize = delegated (\<lambda>n. Number (int n)) (getEncryptedSizeSync this)"
| "invokeSync rt this (PassEncrypt d p) = delegated Buffer (passEncryptSync rt this d p)"
| "invokeSync rt this (PassDecrypt d p) = delegated Buffer (passDecryptSync rt this d p)"
| "invokeSync rt this (EncryptedLoad d p) = delegated (\<lambda>_. Undefined) (encryptedLoadSync this d p)"
| "invokeSync rt this (EncryptedSave p) = delegated Buffer (encryptedSaveSync rt this p)"
| "invokeSync rt this (DeriveKeyFromPass p) = delegated Buffer (deriveKeyFromPassSync rt this p)"
| "invokeSync rt this (DeriveKeyWithSalt p s) = delegated Buffer (deriveKeyWithSaltSync rt this p s)"
| "invokeSync rt this (GetSalt d) = delegated Buffer (getSaltSync rt this d)"
| "invokeSync rt this (PassKeyEncrypt d k) = delegated Buffer (passKeyEncryptSync rt this d k)"
| "invokeSync rt this (PassKeyDecrypt d k) = delegated Buffer (passKeyDecryptSync rt this d k)"
| "invokeSync rt this (EncryptedKeySave k) = delegated Buffer (encryptedKeySaveSync rt this k)"
| "invokeSync rt this (EncryptedKeyLoad d k) = delegated (\<lambda>_. Undefined) (encryptedKeyLoadSync this d k)"
| "invokeSync rt this (IsDataEncrypted d) = delegated Boolean (isDataEncryptedSync this d)"

fun invoke_async :: "runtime \<Rightarrow> encryptsave \<Rightarrow> operation \<Rightarrow> callback option \<Rightarrow> trace \<Rightarrow> trace" where
  "invoke_async rt this GetEncryptionExtraLength cb tr = snd (getEncryptionExtraLength_async this cb tr)"
| "invoke_async rt this GetKeyLength cb tr = snd (getKeyLength_async this cb tr)"
| "invoke_async rt this GetSaltLength cb tr = snd (getSaltLength_async this cb tr)"
| "invoke_async rt this GetEncryptedSize cb tr = snd (getEncryptedSize_async this cb tr)"
| "invoke_async rt this (PassEncrypt d p) cb tr = passEncrypt_async rt this d p cb tr"
| "invoke_async rt this (PassDecrypt d p) cb tr = passDecrypt_async rt this d p cb tr"
| "invoke_async rt this (EncryptedLoad d p) cb tr = encryptedLoad_async this d p cb tr"
| "invoke_async rt this (EncryptedSave p) cb tr = encryptedSave_async rt this p cb tr"
| "invoke_async rt this (DeriveKeyFromPass p) cb tr = deriveKeyFromPass_async rt this p cb tr"
| "invoke_async rt this (DeriveKeyWithSalt p s) cb tr = deriveKeyWithSalt_async rt this p s cb tr"
| "invoke_async rt this (GetSalt d) cb tr = getSalt_async rt this d cb tr"
| "invoke_async rt this (PassKeyEncrypt d k) cb tr = passKeyEncrypt_async rt this d k cb tr"
| "invoke_async rt this (PassKeyDecrypt d k) cb tr = passKeyDecrypt_async rt this d k cb tr"
| "invoke_async rt this (EncryptedKeySave k) cb tr = encryptedKeySave_async rt this k cb tr"
| "invoke_async rt this (EncryptedKeyLoad d k) cb tr = encryptedKeyLoad_async this d k cb tr"
| "invoke_async rt this (IsDataEncrypted d) cb tr = isDataEncrypted_async this d cb tr"

section \<open>Reading a trace\<close>

definition calls :: "trace \<Rightarrow> string list" where
  "calls tr = [f. Call f \<leftarrow> tr]"

definition allocs :: "trace \<Rightarrow> int list" where
  "allocs tr = [n. Alloc n \<leftarrow> tr]"

definition handled :: "trace \<Rightarrow> (js_error option \<times> jsvalue) list" where
  "handled tr = [(err, res). Handler err res \<leftarrow> tr]"


text \<open>
  What the source has per operation: the primitive it wraps, the length or size query
  the multi-step operations issue first, whether it goes through the handle gate, and
  whether its callback receives an output buffer.
\<close>

fun main_primitive :: "operation \<Rightarrow> string" where
  "main_primitive GetEncryptionExtraLength = ''tox_pass_encryption_extra_length''"
| "main_primitive GetKeyLength = ''tox_pass_key_length''"
| "main_primitive GetSaltLength = ''tox_pass_salt_length''"
| "main_primitive GetEncryptedSize = ''tox_encrypted_size''"
| "main_primitive (PassEncrypt d p) = ''tox_pass_encrypt''"
| "main_primitive (PassDecrypt d p) = ''tox_pass_decrypt''"
| "main_primitive (EncryptedLoad d p) = ''tox_encrypted_load''"
| "main_primitive (EncryptedSave p) = ''tox_encrypted_save''"
| "main_primitive (DeriveKeyFromPass p) = ''tox_derive_key_from_pass''"
| "main_primitive (DeriveKeyWithSalt p s) = ''tox_derive_key_with_salt''"
| "main_primitive (GetSalt d) = ''tox_get_salt''"
| "main_primitive (PassKeyEncrypt d k) = ''tox_pass_key_encrypt''"
| "main_primitive (PassKeyDecrypt d k) = ''tox_pass_key_decrypt''"
| "main_primitive (EncryptedKeySave k) = ''tox_encrypted_key_save''"
| "main_primitive (EncryptedKeyLoad d k) = ''tox_encrypted_key_load''"
| "main_primitive (IsDataEncrypted d) = ''tox_is_data_encrypted''"

fun preliminary :: "operation \<Rightarrow> string option" where
  "preliminary (PassEncrypt d p) = Some ''tox_pass_encryption_extra_length''"
| "preliminary (PassDecrypt d p) = Some ''tox_pass_encryption_extra_length''"
| "preliminary (PassKeyEncrypt d k) = Some ''tox_pass_encryption_extra_length''"
| "preliminary (PassKeyDecrypt d k) = Some ''tox_pass_encryption_extra_length''"
| "preliminary (DeriveKeyFromPass p) = Some ''tox_pass_key_length''"
| "preliminary (DeriveKeyWithSalt p s) = Some ''tox_pass_key_length''"
| "preliminary (EncryptedSave p) = Some ''tox_encrypted_size''"
| "preliminary (EncryptedKeySave k) = Some ''tox_encrypted_size''"
| "preliminary _ = None"

fun handle_bound :: "operation \<Rightarrow> bool" where
  "handle_bound GetEncryptedSize = True"
| "handle_bound (EncryptedLoad d p) = True"
| "handle_bound (EncryptedSave p) = True"
| "handle_bound (EncryptedKeySave k) = True"
| "handle_bound (EncryptedKeyLoad d k) = True"
| "handle_bound _ = False"






section \<open>The sizing rules in the specification's words\<close>

text \<open>
  Section 4.1 of the specification: pass/key encrypt has output length = input length +
  extra length, pass/key decrypt has output length = input length - extra length. These
  two definitions state the rules; the operations above do not use them.
\<close>

definition encrypt_length :: "library \<Rightarrow> buffer \<Rightarrow> int" where
  "encrypt_length lib input = int (length input) + tox_pass_encryption_extra_length lib"

definition decrypt_length :: "library \<Rightarrow> buffer \<Rightarrow> int" where
  "decrypt_length lib input = int (length input) - tox_pass_encryption_extra_length lib"

section \<open>The trace of a two-step operation\<close>

text \<open>
  Eight operations first ask the library for a length or size \<open>q\<close>, then allocate
  the output buffer of size \<open>n\<close> and call their primitive \<open>fname\<close>. No
  operation is defined through \<open>two_step_trace\<close>: it spells out the events such an
  operation leaves when its callback is \<open>handler\<close>, and the lemmas named
  \<open>..._run\<close> below prove, operation by operation, that the source's nesting of
  callbacks leaves exactly these. \<open>classify\<close> is the source's test of the
  primitive's result (\<open>nonZero\<close> or \<open>mismatch\<close>).
\<close>

definition two_step_trace ::
  "runtime \<Rightarrow> library \<Rightarrow> string \<Rightarrow> string
     \<Rightarrow> (buffer \<Rightarrow> js_error option \<Rightarrow> jsvalue \<Rightarrow> js_error option)
     \<Rightarrow> int \<Rightarrow> (buffer \<Rightarrow> int \<times> buffer) \<Rightarrow> trace" where
  "two_step_trace rt lib q fname classify n prim =
     (case async_error lib q of
        Some e \<Rightarrow> [Call q, Handler (Some e) Undefined]
      | None \<Rightarrow>
          if n < 0 \<and> rt = RejectNegativeSize
          then [Call q, Alloc n, Uncaught (RangeError ''The size argument must not be negative'')]
          else [Call q, Alloc n, Call fname,
                Handler (classify (replicate (nat n) 0) (async_error lib fname)
                           (case async_error lib fname of
                              None \<Rightarrow> Number (fst (prim (replicate (nat n) 0)))
                            | Some e \<Rightarrow> Undefined))
                  (Buffer (async_written lib fname (replicate (nat n) 0)
                             (snd (prim (replicate (nat n) 0)))))])"

section \<open>A provider for the examples\<close>

text \<open>
  A deterministic stand-in for libtoxencryptsave with an extra length of 80: encrypting
  puts 80 bytes before the data, decrypting removes them and answers -1 below 80 bytes,
  as the library does on failure.
\<close>

definition mock_library :: library where
  "mock_library = \<lparr>
     tox_pass_encryption_extra_length = 80,
     tox_pass_key_length = 32,
     tox_pass_salt_length = 32,
     tox_encrypted_size = (\<lambda>h. 100),
     tox_pass_encrypt = (\<lambda>d n p m out. (0, replicate 80 1 @ d)),
     tox_encrypted_save = (\<lambda>h out p m. (0, replicate 100 2)),
     tox_pass_decrypt = (\<lambda>d n p m out. if n < 80 then (- 1, []) else (int n - 80, drop 80 d)),
     tox_encrypted_load = (\<lambda>h d n p m. 0),
     tox_derive_key_from_pass = (\<lambda>p m out. (0, replicate 32 3)),
     tox_derive_key_with_salt = (\<lambda>p m s out. (0, replicate 32 3)),
     tox_get_salt = (\<lambda>d out. if length d < 80 then (- 1, []) else (0, take 32 (drop 8 d))),
     tox_pass_key_encrypt = (\<lambda>d n k out. (0, replicate 80 1 @ d)),
     tox_encrypted_key_save = (\<lambda>h out k. (0, replicate 100 2)),
     tox_pass_key_decrypt = (\<lambda>d n k out. if n < 80 then (- 1, []) else (int n - 80, drop 80 d)),
     tox_encrypted_key_load = (\<lambda>h d n k. 0),
     tox_is_data_encrypted = (\<lambda>d. if 80 \<le> length d then 1 else 0),
     async_error = (\<lambda>f. None) \<rparr>"

text \<open>The same provider behind a binding whose call of one function fails.\<close>

definition failing_library :: "string \<Rightarrow> library" where
  "failing_library fname =
     mock_library \<lparr> async_error := (\<lambda>f. if f = fname then Some (Error ''boom'') else None) \<rparr>"

text \<open>The same provider refusing to decrypt, as with a wrong secret.\<close>

definition rejecting_library :: library where
  "rejecting_library =
     mock_library \<lparr> tox_pass_decrypt := (\<lambda>d n p m out. (- 1, [])),
                    tox_pass_key_decrypt := (\<lambda>d n k out. (- 1, [])) \<rparr>"

text \<open>
  \<open>new ToxEncryptSave()\<close>: no Tox instance, hence no handle, and blocking emulation
  by default. \<open>new ToxEncryptSave({ sync: false })\<close>: no handle, no blocking
  emulation. \<open>new ToxEncryptSave(tox)\<close> with a Tox instance that has a handle.
\<close>

definition bare_instance :: encryptsave where
  "bare_instance = ToxEncryptSave (\<lambda>libpath. mock_library) []"

definition async_instance :: encryptsave where
  "async_instance =
     ToxEncryptSave (\<lambda>libpath. mock_library) [Object \<lparr> path = None, sync = Boolean False \<rparr>]"

definition tox_instance :: "library \<Rightarrow> encryptsave" where
  "tox_instance lib = ToxEncryptSave (\<lambda>libpath. lib) [ToxInstance \<lparr> handle = Some 1 \<rparr>]"

definition five_bytes :: buffer where
  "five_bytes = [1, 2, 3, 4, 5]"

text \<open>Eighty-five bytes: as long as five bytes of data after encryption.\<close>

definition sealed_bytes :: buffer where
  "sealed_bytes = replicate 85 9"

section \<open>Basic facts\<close>

lemmas sync_defs = andThen_def return_def throw_def ffi_call_def newBuffer_def delegated_def
lemmas entry_defs = useSync_def hasCallback_def started_def
lemmas error_defs = createNonZeroReturnError_def createReturnError_def createNoHandleError_def
lemmas constructor_defs = ToxEncryptSave_def argument_at_def createLibrary_def getHandle_def
  getLibrary_def Let_def

lemma length_written [simp]: "length (written out bytes) = length out"
  by (simp add: written_def)

lemma length_async_written [simp]: "length (async_written lib f out bytes) = length out"
  by (simp add: async_written_def split: option.splits)

lemma bare_instance_fields:
  "this_sync bare_instance" "getHandle bare_instance = None"
  "getLibrary bare_instance = mock_library"
  by (simp_all add: bare_instance_def constructor_defs)

lemma async_instance_fields:
  "\<not> this_sync async_instance" "getHandle async_instance = None"
  "getLibrary async_instance = mock_library"
  by (simp_all add: async_instance_def constructor_defs)

lemma tox_instance_fields:
  "this_sync (tox_instance lib)" "getHandle (tox_instance lib) = Some 1"
  "getLibrary (tox_instance lib) = lib"
  by (simp_all add: tox_instance_def constructor_defs)

lemma length_sealed_bytes: "length sealed_bytes = 85"
  by (simp add: sealed_bytes_def)

subsection \<open>The binding and the gate under a callback\<close>

lemma async_call_eq:
  "async_call lib f res k tr =
     k (async_error lib f) (case async_error lib f of None \<Rightarrow> res | Some e \<Rightarrow> Undefined)
       (tr @ [Call f])"
  by (simp add: async_call_def split: option.splits)

lemma ffi_async_Some:
  "ffi_async lib f res (Some k) tr =
     (Inr (),
      k (async_error lib f) (case async_error lib f of None \<Rightarrow> res | Some e \<Rightarrow> Undefined)
        (tr @ [Call f]))"
  by (simp add: ffi_async_def async_call_eq)

lemma ifCallback_handler: "ifCallback (Some handler) err v tr = tr @ [Handler err v]"
  by (simp add: ifCallback_def handler_def)

lemma checkHandle_Some:
  "checkHandle this (Some k) tr =
     (if getHandle this = None then (False, k (Some createNoHandleError) Undefined tr)
      else (True, tr))"
  by (simp add: checkHandle_def)

lemma getEncryptionExtraLength_Some:
  "snd (getEncryptionExtraLength this (Some k) tr) =
     k (async_error (getLibrary this) ''tox_pass_encryption_extra_length'')
       (case async_error (getLibrary this) ''tox_pass_encryption_extra_length'' of
          None \<Rightarrow> Number (tox_pass_encryption_extra_length (getLibrary this))
        | Some e \<Rightarrow> Undefined)
       (tr @ [Call ''tox_pass_encryption_extra_length''])"
  by (simp add: getEncryptionExtraLength_def getEncryptionExtraLength_async_def entry_defs
        delegated_def ffi_async_Some)

lemma getKeyLength_Some:
  "snd (getKeyLength this (Some k) tr) =
     k (async_error (getLibrary this) ''tox_pass_key_length'')
       (case async_error (getLibrary this) ''tox_pass_key_length'' of
          None \<Rightarrow> Number (tox_pass_key_length (getLibrary this))
        | Some e \<Rightarrow> Undefined)
       (tr @ [Call ''tox_pass_key_length''])"
  by (simp add: getKeyLength_def getKeyLength_async_def entry_defs delegated_def
        ffi_async_Some)

lemma getEncryptedSize_Some:
  "snd (getEncryptedSize this (Some k) tr) =
     (if getHandle this = None then k (Some createNoHandleError) Undefined tr
      else k (async_error (getLibrary this) ''tox_encrypted_size'')
             (case async_error (getLibrary this) ''tox_encrypted_size'' of
                None \<Rightarrow> Number (int (tox_encrypted_size (getLibrary this) (getHandle this)))
              | Some e \<Rightarrow> Undefined)
             (tr @ [Call ''tox_encrypted_size'']))"
  by (simp add: getEncryptedSize_def getEncryptedSize_async_def checkHandle_Some entry_defs
        delegated_def ffi_async_Some)

subsection \<open>What each non-blocking body leaves in the trace of the observing handler\<close>

lemma getEncryptionExtraLength_run:
  "getEncryptionExtraLength_async this (Some handler) tr =
     (Inr (), tr @ [Call ''tox_pass_encryption_extra_length'',
           Handler (async_error (getLibrary this) ''tox_pass_encryption_extra_length'')
             (case async_error (getLibrary this) ''tox_pass_encryption_extra_length'' of
                None \<Rightarrow> Number (tox_pass_encryption_extra_length (getLibrary this))
              | Some e \<Rightarrow> Undefined)])"
  by (simp add: getEncryptionExtraLength_async_def ffi_async_Some handler_def)

lemma getKeyLength_run:
  "getKeyLength_async this (Some handler) tr =
     (Inr (), tr @ [Call ''tox_pass_key_length'',
           Handler (async_error (getLibrary this) ''tox_pass_key_length'')
             (case async_error (getLibrary this) ''tox_pass_key_length'' of
                None \<Rightarrow> Number (tox_pass_key_length (getLibrary this))
              | Some e \<Rightarrow> Undefined)])"
  by (simp add: getKeyLength_async_def ffi_async_Some handler_def)

lemma getSaltLength_run:
  "getSaltLength_async this (Some handler) tr =
     (Inr (), tr @ [Call ''tox_pass_salt_length'',
           Handler (async_error (getLibrary this) ''tox_pass_salt_length'')
             (case async_error (getLibrary this) ''tox_pass_salt_length'' of
                None \<Rightarrow> Number (tox_pass_salt_length (getLibrary this))
              | Some e \<Rightarrow> Undefined)])"
  by (simp add: getSaltLength_async_def ffi_async_Some handler_def)

lemma getEncryptedSize_run:
  "getEncryptedSize_async this (Some handler) tr =
     (Inr (), tr @ (if getHandle this = None then [Handler (Some createNoHandleError) Undefined]
           else [Call ''tox_encrypted_size'',
                 Handler (async_error (getLibrary this) ''tox_encrypted_size'')
                   (case async_error (getLibrary this) ''tox_encrypted_size'' of
                      None \<Rightarrow> Number (int (tox_encrypted_size (getLibrary this) (getHandle this)))
                    | Some e \<Rightarrow> Undefined)]))"
  by (simp add: getEncryptedSize_async_def checkHandle_Some ffi_async_Some handler_def)

lemma passEncrypt_run:
  "passEncrypt_async rt this d p (Some handler) tr =
     tr @ two_step_trace rt (getLibrary this) ''tox_pass_encryption_extra_length''
            ''tox_pass_encrypt'' (\<lambda>out. nonZero ''tox_pass_encrypt'')
            (int (length (asBuffer d)) + tox_pass_encryption_extra_length (getLibrary this))
            (tox_pass_encrypt (getLibrary this) (asBuffer d) (length (asBuffer d))
               (asBuffer p) (length (asBuffer p)))"
  by (simp add: passEncrypt_async_def getEncryptionExtraLength_Some async_call_eq
        ifCallback_handler two_step_trace_def newBuffer_def Let_def
        split: option.splits prod.splits)

lemma passDecrypt_run:
  "passDecrypt_async rt this d p (Some handler) tr =
     tr @ two_step_trace rt (getLibrary this) ''tox_pass_encryption_extra_length''
            ''tox_pass_decrypt'' (mismatch ''tox_pass_decrypt'')
            (int (length (asBuffer d)) - tox_pass_encryption_extra_length (getLibrary this))
            (tox_pass_decrypt (getLibrary this) (asBuffer d) (length (asBuffer d))
               (asBuffer p) (length (asBuffer p)))"
  by (simp add: passDecrypt_async_def getEncryptionExtraLength_Some async_call_eq
        ifCallback_handler two_step_trace_def newBuffer_def Let_def
        split: option.splits prod.splits)

lemma encryptedLoad_run:
  "encryptedLoad_async this d p (Some handler) tr =
     tr @ (if getHandle this = None then [Handler (Some createNoHandleError) Undefined]
           else [Call ''tox_encrypted_load'',
                 Handler (nonZero ''tox_encrypted_load''
                            (async_error (getLibrary this) ''tox_encrypted_load'')
                            (case async_error (getLibrary this) ''tox_encrypted_load'' of
                               None \<Rightarrow> Number (tox_encrypted_load (getLibrary this) (getHandle this)
                                          (asBuffer d) (length (asBuffer d))
                                          (asBuffer p) (length (asBuffer p)))
                             | Some e \<Rightarrow> Undefined))
                   Undefined])"
  by (simp add: encryptedLoad_async_def checkHandle_Some async_call_eq ifCallback_handler
        handler_def Let_def)

lemma encryptedSave_run:
  "encryptedSave_async rt this p (Some handler) tr =
     tr @ (if getHandle this = None then [Handler (Some createNoHandleError) Undefined]
           else two_step_trace rt (getLibrary this) ''tox_encrypted_size''
                  ''tox_encrypted_save'' (\<lambda>out. nonZero ''tox_encrypted_save'')
                  (int (tox_encrypted_size (getLibrary this) (getHandle this)))
                  (\<lambda>out. tox_encrypted_save (getLibrary this) (getHandle this) out
                            (asBuffer p) (length (asBuffer p))))"
  by (simp add: encryptedSave_async_def checkHandle_Some getEncryptedSize_Some async_call_eq
        ifCallback_handler two_step_trace_def newBuffer_def Let_def handler_def
        split: option.splits prod.splits)

lemma deriveKeyFromPass_run:
  "deriveKeyFromPass_async rt this p (Some handler) tr =
     tr @ two_step_trace rt (getLibrary this) ''tox_pass_key_length''
            ''tox_derive_key_from_pass'' (\<lambda>out. nonZero ''tox_derive_key_from_pass'')
            (tox_pass_key_length (getLibrary this))
            (tox_derive_key_from_pass (getLibrary this) (asBuffer p) (length (asBuffer p)))"
  by (simp add: deriveKeyFromPass_async_def getKeyLength_Some async_call_eq
        ifCallback_handler two_step_trace_def newBuffer_def Let_def
        split: option.splits prod.splits)

lemma deriveKeyWithSalt_run:
  "deriveKeyWithSalt_async rt this p s (Some handler) tr =
     tr @ two_step_trace rt (getLibrary this) ''tox_pass_key_length''
            ''tox_derive_key_with_salt'' (\<lambda>out. nonZero ''tox_derive_key_with_salt'')
            (tox_pass_key_length (getLibrary this))
            (tox_derive_key_with_salt (getLibrary this) (asBuffer p) (length (asBuffer p)) s)"
  by (simp add: deriveKeyWithSalt_async_def getKeyLength_Some async_call_eq
        ifCallback_handler two_step_trace_def newBuffer_def Let_def
        split: option.splits prod.splits)

lemma getSalt_run:
  "getSalt_async rt this d (Some handler) tr =
     tr @ [Alloc 32, Call ''tox_get_salt'',
           Handler (nonZero ''tox_get_salt'' (async_error (getLibrary this) ''tox_get_salt'')
                      (case async_error (getLibrary this) ''tox_get_salt'' of
                         None \<Rightarrow> Number (fst (tox_get_salt (getLibrary this) d (replicate 32 0)))
                       | Some e \<Rightarrow> Undefined))
             (Buffer (async_written (getLibrary this) ''tox_get_salt'' (replicate 32 0)
                        (snd (tox_get_salt (getLibrary this) d (replicate 32 0)))))]"
  by (simp add: getSalt_async_def TOX_SALT_LENGTH_def newBuffer_def async_call_eq
        ifCallback_handler split_beta)

lemma passKeyEncrypt_run:
  "passKeyEncrypt_async rt this d k (Some handler) tr =
     tr @ two_step_trace rt (getLibrary this) ''tox_pass_encryption_extra_length''
            ''tox_pass_key_encrypt'' (\<lambda>out. nonZero ''tox_pass_key_encrypt'')
            (int (length (asBuffer d)) + tox_pass_encryption_extra_length (getLibrary this))
            (tox_pass_key_encrypt (getLibrary this) (asBuffer d) (length (asBuffer d)) k)"
  by (simp add: passKeyEncrypt_async_def getEncryptionExtraLength_Some async_call_eq
        ifCallback_handler two_step_trace_def newBuffer_def Let_def
        split: option.splits prod.splits)

lemma passKeyDecrypt_run:
  "passKeyDecrypt_async rt this d k (Some handler) tr =
     tr @ two_step_trace rt (getLibrary this) ''tox_pass_encryption_extra_length''
            ''tox_pass_key_decrypt'' (mismatch ''tox_pass_key_decrypt'')
            (int (length d) - tox_pass_encryption_extra_length (getLibrary this))
            (tox_pass_key_decrypt (getLibrary this) d (length d) k)"
  by (simp add: passKeyDecrypt_async_def getEncryptionExtraLength_Some async_call_eq
        ifCallback_handler two_step_trace_def newBuffer_def Let_def
        split: option.splits prod.splits)

lemma encryptedKeySave_run:
  "encryptedKeySave_async rt this k (Some handler) tr =
     tr @ (if getHandle this = None then [Handler (Some createNoHandleError) Undefined]
           else two_step_trace rt (getLibrary this) ''tox_encrypted_size''
                  ''tox_encrypted_key_save'' (\<lambda>out. nonZero ''tox_encrypted_key_save'')
                  (int (tox_encrypted_size (getLibrary this) (getHandle this)))
                  (\<lambda>out. tox_encrypted_key_save (getLibrary this) (getHandle this) out k))"
  by (simp add: encryptedKeySave_async_def checkHandle_Some getEncryptedSize_Some async_call_eq
        ifCallback_handler two_step_trace_def newBuffer_def Let_def handler_def
        split: option.splits prod.splits)

lemma encryptedKeyLoad_run:
  "encryptedKeyLoad_async this d k (Some handler) tr =
     tr @ (if getHandle this = None then [Handler (Some createNoHandleError) Undefined]
           else [Call ''tox_encrypted_key_load'',
                 Handler (nonZero ''tox_encrypted_key_load''
                            (async_error (getLibrary this) ''tox_encrypted_key_load'')
                            (case async_error (getLibrary this) ''tox_encrypted_key_load'' of
                               None \<Rightarrow> Number (tox_encrypted_key_load (getLibrary this)
                                          (getHandle this) d (length d) k)
                             | Some e \<Rightarrow> Undefined))
                   Undefined])"
  by (simp add: encryptedKeyLoad_async_def checkHandle_Some async_call_eq ifCallback_handler
        handler_def)

lemma isDataEncrypted_run:
  "isDataEncrypted_async this d (Some handler) tr =
     tr @ [Call ''tox_is_data_encrypted'',
           Handler (async_error (getLibrary this) ''tox_is_data_encrypted'')
             (if async_error (getLibrary this) ''tox_is_data_encrypted'' = None
              then Boolean (tox_is_data_encrypted (getLibrary this) d = 1) else Undefined)]"
  by (simp add: isDataEncrypted_async_def async_call_eq ifCallback_handler
        split: option.splits)

lemmas run_lemmas = getEncryptionExtraLength_run getKeyLength_run getSaltLength_run
  getEncryptedSize_run passEncrypt_run passDecrypt_run encryptedLoad_run encryptedSave_run
  deriveKeyFromPass_run deriveKeyWithSalt_run getSalt_run passKeyEncrypt_run passKeyDecrypt_run
  encryptedKeySave_run encryptedKeyLoad_run isDataEncrypted_run

lemmas entry_points = getEncryptionExtraLength_def getKeyLength_def getSaltLength_def
  getEncryptedSize_def passEncrypt_def passDecrypt_def encryptedLoad_def encryptedSave_def
  deriveKeyFromPass_def deriveKeyWithSalt_def getSalt_def passKeyEncrypt_def passKeyDecrypt_def
  encryptedKeySave_def encryptedKeyLoad_def isDataEncrypted_def

lemma invoke_dispatch:
  assumes "cb \<noteq> None \<or> this_sync this"
  shows "invoke rt this op cb tr =
     (if useSync this cb then invokeSync rt this op tr
      else started (invoke_async rt this op cb tr))"
proof (cases cb)
  case None
  with assms show ?thesis
    by (cases op) (simp_all add: entry_points entry_defs)
next
  case (Some k)
  then show ?thesis
    by (cases op)
       (simp_all add: entry_points entry_defs delegated_def ffi_async_def
          getEncryptionExtraLength_async_def getKeyLength_async_def getSaltLength_async_def
          getEncryptedSize_async_def checkHandle_Some)
qed


lemma invoke_with_handler:
  "invoke rt this op (Some handler) tr = (Inr Undefined, invoke_async rt this op (Some handler) tr)"
  by (simp add: invoke_dispatch entry_defs)

section \<open>The claims of the specification\<close>

subsection \<open>C1: decrypting an input shorter than the extra length\<close>

text \<open>
  For any input shorter than the extra length the blocking function asks for a buffer
  of negative size; on the runtime that clamps it the decrypt primitive is called, on
  the other the allocation throws.
\<close>

lemma short_input_blocking:
  assumes "int (length (asBuffer d)) < tox_pass_encryption_extra_length (getLibrary this)"
  shows "calls (snd (passDecryptSync ClampNegativeSize this d p [])) =
           [''tox_pass_encryption_extra_length'', ''tox_pass_decrypt''] \<and>
         allocs (snd (passDecryptSync rt this d p [])) =
           [decrypt_length (getLibrary this) (asBuffer d)] \<and>
         passDecryptSync RejectNegativeSize this d p [] =
           (Inl (RangeError ''The size argument must not be negative''),
            [Call ''tox_pass_encryption_extra_length'',
             Alloc (decrypt_length (getLibrary this) (asBuffer d))])"
  using assms
  by (simp add: passDecryptSync_def getEncryptionExtraLengthSync_def sync_defs calls_def
        allocs_def decrypt_length_def Let_def split_beta)

text \<open>
  Claim C1. Every decrypt-class operation given an input shorter than the extra length
  is to fail with an InvalidInputLengthError before any output buffer is allocated and
  without calling the decrypt primitive. The source has no such check (its comments
  ask for one: \<open>@todo Check that outBuffer length won't be negative?\<close>). With five
  bytes of input and an extra length of 80 it evaluates \<open>new Buffer(-75)\<close>. On a
  runtime that turns the negative size into an empty buffer the decrypt primitive is
  called and its answer -1 comes back as a ReturnError against the expected length 0; on
  a runtime that refuses the size the allocation itself throws a RangeError.
\<close>

theorem short_input_reaches_decrypt:
  "passDecryptSync ClampNegativeSize bare_instance (Buf five_bytes) (Str ''pw'') [] =
     (Inl (ReturnError ''tox_pass_decrypt'' (Number (- 1)) (Number 0)),
      [Call ''tox_pass_encryption_extra_length'', Alloc (- 75), Call ''tox_pass_decrypt'']) \<and>
   passDecryptSync RejectNegativeSize bare_instance (Buf five_bytes) (Str ''pw'') [] =
     (Inl (RangeError ''The size argument must not be negative''),
      [Call ''tox_pass_encryption_extra_length'', Alloc (- 75)]) \<and>
   passKeyDecrypt ClampNegativeSize bare_instance five_bytes [] (Some handler) [] =
     (Inr Undefined,
      [Call ''tox_pass_encryption_extra_length'', Alloc (- 75), Call ''tox_pass_key_decrypt'',
       Handler (Some (ReturnError ''tox_pass_key_decrypt'' (Number (- 1)) (Number 0)))
         (Buffer [])])"
  by (simp add: passDecryptSync_def getEncryptionExtraLengthSync_def sync_defs error_defs
        passKeyDecrypt_def entry_defs passKeyDecrypt_run two_step_trace_def mismatch_def
        async_written_def written_def
        bare_instance_fields mock_library_def five_bytes_def)

subsection \<open>C2: the handle gate\<close>

text \<open>
  Where the gate does hold: on the blocking path, and on the non-blocking path with a
  handler, a handle-bound operation without a handle ends in the no-handle error and
  the library is not called.
\<close>

lemma gate_with_handler_or_blocking:
  assumes "handle_bound op" and "getHandle this = None"
  shows "invokeSync rt this op [] = (Inl createNoHandleError, []) \<and>
         invoke rt this op (Some handler) [] =
           (Inr Undefined, [Handler (Some createNoHandleError) Undefined])"
  using assms unfolding invoke_with_handler
  by (cases op)
     (simp_all add: run_lemmas sync_defs getEncryptedSizeSync_def checkHandleSync_def
        encryptedLoadSync_def encryptedSaveSync_def encryptedKeySaveSync_def
        encryptedKeyLoadSync_def)

text \<open>
  For any data and any library: on an instance without blocking emulation and without
  a handle, \<open>encryptedLoad\<close> and \<open>encryptedKeyLoad\<close> called with no callback pass
  the gate and call their primitive.
\<close>

lemma load_without_handle_reaches_library:
  assumes "\<not> this_sync this" and "getHandle this = None"
  shows "calls (snd (encryptedLoad this d p None [])) = [''tox_encrypted_load''] \<and>
         calls (snd (encryptedKeyLoad this b k None [])) = [''tox_encrypted_key_load'']"
  using assms
  by (simp add: encryptedLoad_def encryptedLoad_async_def encryptedKeyLoad_def
        encryptedKeyLoad_async_def checkHandle_def entry_defs async_call_eq ifCallback_def
        calls_def Let_def)

text \<open>
  Claim C2. A handle-bound operation called with no handle is to fail with the
  no-handle error and never to reach the library, in both calling conventions. On an
  instance made with \<open>{ sync: false }\<close> and called with no callback,
  \<open>_checkHandle\<close> answers true although there is no handle (its \<open>return false\<close>
  stands under \<open>if(!this.getHandle() && callback)\<close>, against its own
  \<open>@return true if handle, false if no handle\<close>), and \<open>encryptedLoad\<close> and
  \<open>encryptedKeyLoad\<close> go on to call their primitive with an undefined handle.
\<close>

theorem fire_and_forget_passes_gate:
  "getHandle async_instance = None \<and>
   checkHandle async_instance None [] = (True, []) \<and>
   encryptedLoad async_instance (Buf five_bytes) (Str ''pw'') None [] =
     (Inr Undefined, [Call ''tox_encrypted_load'']) \<and>
   encryptedKeyLoad async_instance five_bytes [] None [] =
     (Inr Undefined, [Call ''tox_encrypted_key_load''])"
  by (simp add: async_instance_fields checkHandle_def encryptedLoad_def encryptedLoad_async_def
        encryptedKeyLoad_def encryptedKeyLoad_async_def entry_defs async_call_eq ifCallback_def
        Let_def mock_library_def)

subsection \<open>C3: the choice between the blocking and the non-blocking path\<close>



subsection \<open>C4: the length of an encryption\<close>

lemma passEncryptSync_result:
  assumes "0 \<le> encrypt_length (getLibrary this) (asBuffer d)"
  shows "passEncryptSync rt this d p [] =
     (let lib = getLibrary this; input = asBuffer d; n = encrypt_length lib input;
          r = tox_pass_encrypt lib input (length input) (asBuffer p) (length (asBuffer p))
                (replicate (nat n) 0)
      in (if fst r \<noteq> 0
          then Inl (NonZeroReturnError ''tox_pass_encrypt'' (Number (fst r)))
          else Inr (written (replicate (nat n) 0) (snd r)),
          [Call ''tox_pass_encryption_extra_length'', Alloc n, Call ''tox_pass_encrypt'']))"
  using assms
  by (simp add: passEncryptSync_def getEncryptionExtraLengthSync_def sync_defs error_defs
        encrypt_length_def Let_def split_beta)

lemma passKeyEncryptSync_result:
  assumes "0 \<le> encrypt_length (getLibrary this) (asBuffer d)"
  shows "passKeyEncryptSync rt this d k [] =
     (let lib = getLibrary this; input = asBuffer d; n = encrypt_length lib input;
          r = tox_pass_key_encrypt lib input (length input) k (replicate (nat n) 0)
      in (if fst r \<noteq> 0
          then Inl (NonZeroReturnError ''tox_pass_key_encrypt'' (Number (fst r)))
          else Inr (written (replicate (nat n) 0) (snd r)),
          [Call ''tox_pass_encryption_extra_length'', Alloc n, Call ''tox_pass_key_encrypt'']))"
  using assms
  by (simp add: passKeyEncryptSync_def getEncryptionExtraLengthSync_def sync_defs error_defs
        encrypt_length_def Let_def split_beta)

lemma two_step_allocates:
  assumes "0 \<le> n" and "async_error lib q = None"
  shows "allocs (two_step_trace rt lib q f classify n prim) = [n] \<and>
         (\<exists>err out. handled (two_step_trace rt lib q f classify n prim) = [(err, Buffer out)] \<and>
            int (length out) = n)"
  using assms
  by (simp add: two_step_trace_def allocs_def handled_def)

lemma two_step_nonZero:
  assumes "0 \<le> n" and "async_error lib q = None" and "async_error lib f = None"
  shows "two_step_trace rt lib q f (\<lambda>out. nonZero f) n prim =
     [Call q, Alloc n, Call f,
      Handler (if fst (prim (replicate (nat n) 0)) \<noteq> 0
               then Some (NonZeroReturnError f (Number (fst (prim (replicate (nat n) 0)))))
               else None)
        (Buffer (written (replicate (nat n) 0) (snd (prim (replicate (nat n) 0)))))]"
  using assms
  by (simp add: two_step_trace_def nonZero_def async_written_def error_defs)

text \<open>
  Claim C4. With a library that reports a non-negative extra length, and n = input
  length + extra length: \<open>passEncryptSync\<close> and \<open>passKeyEncryptSync\<close> query the
  extra length, allocate n bytes and call their primitive, and return the buffer, of
  length n, exactly when the primitive answers 0 (they throw the NonZeroReturnError
  otherwise). \<open>passEncrypt\<close> and \<open>passKeyEncrypt\<close> with a handler, once the length
  query has succeeded, allocate exactly n bytes and call the handler exactly once with
  a buffer of length n; when the binding reports no error for the primitive either,
  their events are the query, the allocation of n bytes, the primitive and one handler
  call, with no error exactly when the primitive answers 0.
\<close>

theorem encrypt_output_length:
  assumes "0 \<le> tox_pass_encryption_extra_length (getLibrary this)"
  shows "(let lib = getLibrary this; input = asBuffer d; n = encrypt_length lib input;
              r = tox_pass_encrypt lib input (length input) (asBuffer p) (length (asBuffer p))
                    (replicate (nat n) 0);
              rk = tox_pass_key_encrypt lib input (length input) k (replicate (nat n) 0)
          in passEncryptSync rt this d p [] =
               (if fst r \<noteq> 0
                then Inl (NonZeroReturnError ''tox_pass_encrypt'' (Number (fst r)))
                else Inr (written (replicate (nat n) 0) (snd r)),
                [Call ''tox_pass_encryption_extra_length'', Alloc n,
                 Call ''tox_pass_encrypt'']) \<and>
             passKeyEncryptSync rt this d k [] =
               (if fst rk \<noteq> 0
                then Inl (NonZeroReturnError ''tox_pass_key_encrypt'' (Number (fst rk)))
                else Inr (written (replicate (nat n) 0) (snd rk)),
                [Call ''tox_pass_encryption_extra_length'', Alloc n,
                 Call ''tox_pass_key_encrypt'']) \<and>
             int (length (written (replicate (nat n) 0) (snd r))) = n \<and>
             int (length (written (replicate (nat n) 0) (snd rk))) = n \<and>
             (async_error lib ''tox_pass_encryption_extra_length'' = None \<longrightarrow>
              allocs (snd (passEncrypt rt this d p (Some handler) [])) = [n] \<and>
              (\<exists>err out. handled (snd (passEncrypt rt this d p (Some handler) [])) =
                  [(err, Buffer out)] \<and> int (length out) = n) \<and>
              allocs (snd (passKeyEncrypt rt this d k (Some handler) [])) = [n] \<and>
              (\<exists>err out. handled (snd (passKeyEncrypt rt this d k (Some handler) [])) =
                  [(err, Buffer out)] \<and> int (length out) = n)) \<and>
             (async_error lib ''tox_pass_encryption_extra_length'' = None \<and>
              async_error lib ''tox_pass_encrypt'' = None \<longrightarrow>
              passEncrypt rt this d p (Some handler) [] =
                (Inr Undefined,
                 [Call ''tox_pass_encryption_extra_length'', Alloc n, Call ''tox_pass_encrypt'',
                  Handler (if fst r \<noteq> 0
                           then Some (NonZeroReturnError ''tox_pass_encrypt'' (Number (fst r)))
                           else None)
                    (Buffer (written (replicate (nat n) 0) (snd r)))])) \<and>
             (async_error lib ''tox_pass_encryption_extra_length'' = None \<and>
              async_error lib ''tox_pass_key_encrypt'' = None \<longrightarrow>
              passKeyEncrypt rt this d k (Some handler) [] =
                (Inr Undefined,
                 [Call ''tox_pass_encryption_extra_length'', Alloc n,
                  Call ''tox_pass_key_encrypt'',
                  Handler (if fst rk \<noteq> 0
                           then Some (NonZeroReturnError ''tox_pass_key_encrypt''
                                        (Number (fst rk)))
                           else None)
                    (Buffer (written (replicate (nat n) 0) (snd rk)))])))"
proof -
  have n: "0 \<le> encrypt_length (getLibrary this) (asBuffer d)"
    using assms by (simp add: encrypt_length_def)
  have a: "passEncrypt rt this d p (Some handler) [] =
     (Inr Undefined,
      two_step_trace rt (getLibrary this) ''tox_pass_encryption_extra_length''
        ''tox_pass_encrypt'' (\<lambda>out. nonZero ''tox_pass_encrypt'')
        (encrypt_length (getLibrary this) (asBuffer d))
        (tox_pass_encrypt (getLibrary this) (asBuffer d) (length (asBuffer d))
           (asBuffer p) (length (asBuffer p))))"
    by (simp add: passEncrypt_def entry_defs passEncrypt_run encrypt_length_def)
  have b: "passKeyEncrypt rt this d k (Some handler) [] =
     (Inr Undefined,
      two_step_trace rt (getLibrary this) ''tox_pass_encryption_extra_length''
        ''tox_pass_key_encrypt'' (\<lambda>out. nonZero ''tox_pass_key_encrypt'')
        (encrypt_length (getLibrary this) (asBuffer d))
        (tox_pass_key_encrypt (getLibrary this) (asBuffer d) (length (asBuffer d)) k))"
    by (simp add: passKeyEncrypt_def entry_defs passKeyEncrypt_run encrypt_length_def)
  show ?thesis
    unfolding Let_def a b
    using n
    by (simp add: passEncryptSync_result [unfolded Let_def]
          passKeyEncryptSync_result [unfolded Let_def] two_step_allocates two_step_nonZero)
qed

text \<open>
  Five bytes and an extra length of 80: both forms allocate 85 bytes and give a buffer
  of 85 bytes, the blocking one as its value, the other to the handler.
\<close>

theorem encrypt_output_length_witness:
  "0 \<le> tox_pass_encryption_extra_length (getLibrary bare_instance) \<and>
   passEncryptSync ClampNegativeSize bare_instance (Buf five_bytes) (Str ''pw'') [] =
     (Inr (written (replicate 85 0) (replicate 80 1 @ five_bytes)),
      [Call ''tox_pass_encryption_extra_length'', Alloc 85, Call ''tox_pass_encrypt'']) \<and>
   int (length (written (replicate 85 0) (replicate 80 1 @ five_bytes))) = 85 \<and>
   passEncrypt ClampNegativeSize bare_instance (Buf five_bytes) (Str ''pw'') (Some handler) [] =
     (Inr Undefined,
      [Call ''tox_pass_encryption_extra_length'', Alloc 85, Call ''tox_pass_encrypt'',
       Handler None (Buffer (written (replicate 85 0) (replicate 80 1 @ five_bytes)))])"
proof -
  have h: "0 \<le> tox_pass_encryption_extra_length (getLibrary bare_instance)"
    by (simp add: bare_instance_fields mock_library_def)
  have e: "encrypt_length (getLibrary bare_instance) (asBuffer (Buf five_bytes)) = 85"
    by (simp add: encrypt_length_def bare_instance_fields mock_library_def five_bytes_def)
  have q: "async_error (getLibrary bare_instance) ''tox_pass_encryption_extra_length'' = None"
          "async_error (getLibrary bare_instance) ''tox_pass_encrypt'' = None"
    by (simp_all add: bare_instance_fields mock_library_def)
  note all = encrypt_output_length [OF h, of "Buf five_bytes" "Str ''pw''" "[]" ClampNegativeSize,
      unfolded Let_def e]
  have s: "passEncryptSync ClampNegativeSize bare_instance (Buf five_bytes) (Str ''pw'') [] =
     (Inr (written (replicate 85 0) (replicate 80 1 @ five_bytes)),
      [Call ''tox_pass_encryption_extra_length'', Alloc 85, Call ''tox_pass_encrypt''])"
    using all [THEN conjunct1] by (simp add: bare_instance_fields mock_library_def)
  have t: "passEncrypt ClampNegativeSize bare_instance (Buf five_bytes) (Str ''pw'')
             (Some handler) [] =
     (Inr Undefined,
      [Call ''tox_pass_encryption_extra_length'', Alloc 85, Call ''tox_pass_encrypt'',
       Handler None (Buffer (written (replicate 85 0) (replicate 80 1 @ five_bytes)))])"
    using all [THEN conjunct2, THEN conjunct2, THEN conjunct2, THEN conjunct2, THEN conjunct2,
        THEN conjunct1] q by (simp add: bare_instance_fields mock_library_def)
  from h s t show ?thesis
    by simp
qed

subsection \<open>C5: the length check after decrypting\<close>

lemma passDecryptSync_result:
  assumes "0 \<le> decrypt_length (getLibrary this) (asBuffer d)"
  shows "fst (passDecryptSync rt this d p []) =
     (let lib = getLibrary this; input = asBuffer d; n = decrypt_length lib input;
          r = tox_pass_decrypt lib input (length input) (asBuffer p) (length (asBuffer p))
                (replicate (nat n) 0)
      in if fst r \<noteq> n
         then Inl (ReturnError ''tox_pass_decrypt'' (Number (fst r)) (Number n))
         else Inr (written (replicate (nat n) 0) (snd r)))"
  using assms
  by (simp add: passDecryptSync_def getEncryptionExtraLengthSync_def sync_defs error_defs
        decrypt_length_def Let_def split_beta)

lemma passKeyDecryptSync_result:
  assumes "0 \<le> decrypt_length (getLibrary this) input"
  shows "fst (passKeyDecryptSync rt this input k []) =
     (let lib = getLibrary this; n = decrypt_length lib input;
          r = tox_pass_key_decrypt lib input (length input) k (replicate (nat n) 0)
      in if fst r \<noteq> n
         then Inl (ReturnError ''tox_pass_key_decrypt'' (Number (fst r)) (Number n))
         else Inr (written (replicate (nat n) 0) (snd r)))"
  using assms
  by (simp add: passKeyDecryptSync_def getEncryptionExtraLengthSync_def sync_defs error_defs
        decrypt_length_def Let_def split_beta)

lemma two_step_mismatch:
  assumes "0 \<le> n" and "async_error lib q = None" and "async_error lib f = None"
  shows "handled (two_step_trace rt lib q f (mismatch f) n prim) =
     [(if fst (prim (replicate (nat n) 0)) \<noteq> n
       then Some (ReturnError f (Number (fst (prim (replicate (nat n) 0)))) (Number n))
       else None,
       Buffer (written (replicate (nat n) 0) (snd (prim (replicate (nat n) 0)))))]"
  using assms
  by (simp add: two_step_trace_def handled_def mismatch_def async_written_def error_defs)

text \<open>
  Claim C5. For an input at least as long as the extra length, so that the expected
  output length n = input length - extra length exists, the decrypt operations fail with
  the error made by \<open>createReturnError\<close> from the primitive's name, the count it
  returned and n exactly when that count differs from n, and otherwise succeed with the
  output buffer, of length n. The blocking functions throw or return; the non-blocking
  ones, when the binding reports no error of its own, call the handler once with the
  same error or none, and the buffer.
\<close>

theorem decrypt_return_mismatch:
  assumes "0 \<le> decrypt_length (getLibrary this) (asBuffer d)"
  shows "(let lib = getLibrary this; input = asBuffer d; n = decrypt_length lib input;
              r = tox_pass_decrypt lib input (length input) (asBuffer p) (length (asBuffer p))
                    (replicate (nat n) 0);
              rk = tox_pass_key_decrypt lib input (length input) k (replicate (nat n) 0)
          in fst (passDecryptSync rt this d p []) =
               (if fst r \<noteq> n
                then Inl (ReturnError ''tox_pass_decrypt'' (Number (fst r)) (Number n))
                else Inr (written (replicate (nat n) 0) (snd r))) \<and>
             fst (passKeyDecryptSync rt this input k []) =
               (if fst rk \<noteq> n
                then Inl (ReturnError ''tox_pass_key_decrypt'' (Number (fst rk)) (Number n))
                else Inr (written (replicate (nat n) 0) (snd rk))) \<and>
             int (length (written (replicate (nat n) 0) (snd r))) = n \<and>
             int (length (written (replicate (nat n) 0) (snd rk))) = n \<and>
             (async_error lib ''tox_pass_encryption_extra_length'' = None \<and>
              async_error lib ''tox_pass_decrypt'' = None \<longrightarrow>
              handled (snd (passDecrypt rt this d p (Some handler) [])) =
                [(if fst r \<noteq> n
                  then Some (ReturnError ''tox_pass_decrypt'' (Number (fst r)) (Number n))
                  else None,
                  Buffer (written (replicate (nat n) 0) (snd r)))]) \<and>
             (async_error lib ''tox_pass_encryption_extra_length'' = None \<and>
              async_error lib ''tox_pass_key_decrypt'' = None \<longrightarrow>
              handled (snd (passKeyDecrypt rt this input k (Some handler) [])) =
                [(if fst rk \<noteq> n
                  then Some (ReturnError ''tox_pass_key_decrypt'' (Number (fst rk)) (Number n))
                  else None,
                  Buffer (written (replicate (nat n) 0) (snd rk)))]))"
proof -
  have a: "snd (passDecrypt rt this d p (Some handler) []) =
      two_step_trace rt (getLibrary this) ''tox_pass_encryption_extra_length''
        ''tox_pass_decrypt'' (mismatch ''tox_pass_decrypt'')
        (decrypt_length (getLibrary this) (asBuffer d))
        (tox_pass_decrypt (getLibrary this) (asBuffer d) (length (asBuffer d))
           (asBuffer p) (length (asBuffer p)))"
    by (simp add: passDecrypt_def entry_defs passDecrypt_run decrypt_length_def)
  have b: "snd (passKeyDecrypt rt this (asBuffer d) k (Some handler) []) =
      two_step_trace rt (getLibrary this) ''tox_pass_encryption_extra_length''
        ''tox_pass_key_decrypt'' (mismatch ''tox_pass_key_decrypt'')
        (decrypt_length (getLibrary this) (asBuffer d))
        (tox_pass_key_decrypt (getLibrary this) (asBuffer d) (length (asBuffer d)) k)"
    by (simp add: passKeyDecrypt_def entry_defs passKeyDecrypt_run decrypt_length_def)
  show ?thesis
    unfolding Let_def a b
    using assms
    by (simp add: passDecryptSync_result [unfolded Let_def]
          passKeyDecryptSync_result [unfolded Let_def] two_step_mismatch)
qed

text \<open>
  Eighty-five bytes decrypt to a buffer of five; a library that answers -1 gives the
  ReturnError with the count -1 and the expected length 5.
\<close>

theorem decrypt_return_mismatch_witness:
  "0 \<le> decrypt_length (getLibrary bare_instance) (asBuffer (Buf sealed_bytes)) \<and>
   fst (passDecryptSync ClampNegativeSize bare_instance (Buf sealed_bytes) (Str ''pw'') []) =
     Inr (written (replicate 5 0) (drop 80 sealed_bytes)) \<and>
   fst (passDecryptSync ClampNegativeSize (tox_instance rejecting_library) (Buf sealed_bytes)
          (Str ''pw'') []) =
     Inl (ReturnError ''tox_pass_decrypt'' (Number (- 1)) (Number 5))"
proof -
  have h1: "0 \<le> decrypt_length (getLibrary bare_instance) (asBuffer (Buf sealed_bytes))"
    by (simp add: decrypt_length_def bare_instance_fields mock_library_def length_sealed_bytes)
  have h2: "0 \<le> decrypt_length (getLibrary (tox_instance rejecting_library))
                  (asBuffer (Buf sealed_bytes))"
    by (simp add: decrypt_length_def tox_instance_fields rejecting_library_def mock_library_def
          length_sealed_bytes)
  note ok = decrypt_return_mismatch [OF h1, of "Str ''pw''" "[]" ClampNegativeSize, unfolded Let_def, THEN conjunct1]
  note bad = decrypt_return_mismatch [OF h2, of "Str ''pw''" "[]" ClampNegativeSize, unfolded Let_def, THEN conjunct1]
  have "fst (passDecryptSync ClampNegativeSize bare_instance (Buf sealed_bytes) (Str ''pw'') []) =
     Inr (written (replicate 5 0) (drop 80 sealed_bytes))"
    by (simp only: ok) (simp add: decrypt_length_def bare_instance_fields mock_library_def
          length_sealed_bytes)
  moreover have "fst (passDecryptSync ClampNegativeSize (tox_instance rejecting_library)
          (Buf sealed_bytes) (Str ''pw'') []) =
     Inl (ReturnError ''tox_pass_decrypt'' (Number (- 1)) (Number 5))"
    by (simp only: bad) (simp add: decrypt_length_def tox_instance_fields rejecting_library_def
          mock_library_def length_sealed_bytes)
  ultimately show ?thesis
    using h1 by simp
qed

subsection \<open>C6: the calls of the completion handler\<close>




subsection \<open>C7: the kinds of error\<close>

text \<open>
  Claim C7. The no-handle, non-zero-return and return-mismatch errors are to be kinds a
  caller can tell apart, with their diagnostic fields, without reading the message. The
  no-handle error of the source is \<open>new Error('No handle')\<close>: an Error object that
  holds its message and nothing else, neither a field that names its kind nor a
  diagnostic field, so that a caller recognises it by the text of the message only. The
  source marks this as unfinished (\<open>@todo More info in Error\<close> at
  \<open>_checkHandleSync\<close>). Both conventions produce this same object.
\<close>

theorem no_handle_error_is_plain:
  "createNoHandleError = Error ''No handle'' \<and>
   getEncryptedSizeSync bare_instance [] = (Inl (Error ''No handle''), []) \<and>
   encryptedLoadSync bare_instance (Buf five_bytes) (Str ''pw'') [] =
     (Inl (Error ''No handle''), []) \<and>
   getEncryptedSize bare_instance (Some handler) [] =
     (Inr Undefined, [Handler (Some (Error ''No handle'')) Undefined])"
  by (simp add: createNoHandleError_def getEncryptedSizeSync_def encryptedLoadSync_def
        checkHandleSync_def sync_defs getEncryptedSize_def entry_defs getEncryptedSize_run
        bare_instance_fields)

subsection \<open>C8: the salt\<close>

text \<open>
  Claim C8. \<open>getSaltSync\<close> and \<open>getSalt\<close> allocate TOX_SALT_LENGTH = 32
  bytes whatever the data, call \<open>tox_get_salt\<close> and no length query, fail with the
  NonZeroReturnError of \<open>tox_get_salt\<close> exactly when it returns a non-zero code, and
  otherwise give the buffer of 32 bytes. For \<open>getSalt\<close> this is what the handler
  receives when the binding reports no error of its own.
\<close>

theorem getSalt_fixed_length:
  "TOX_SALT_LENGTH = 32 \<and>
   getSaltSync rt this d [] =
     (if fst (tox_get_salt (getLibrary this) d (replicate 32 0)) \<noteq> 0
      then Inl (NonZeroReturnError ''tox_get_salt''
                  (Number (fst (tox_get_salt (getLibrary this) d (replicate 32 0)))))
      else Inr (written (replicate 32 0) (snd (tox_get_salt (getLibrary this) d (replicate 32 0)))),
      [Alloc TOX_SALT_LENGTH, Call ''tox_get_salt'']) \<and>
   (\<forall>out T. getSaltSync rt this d [] = (Inr out, T) \<longrightarrow> int (length out) = TOX_SALT_LENGTH) \<and>
   (async_error (getLibrary this) ''tox_get_salt'' = None \<longrightarrow>
    getSalt rt this d (Some handler) [] =
      (Inr Undefined,
       [Alloc TOX_SALT_LENGTH, Call ''tox_get_salt'',
        Handler (if fst (tox_get_salt (getLibrary this) d (replicate 32 0)) \<noteq> 0
                 then Some (NonZeroReturnError ''tox_get_salt''
                        (Number (fst (tox_get_salt (getLibrary this) d (replicate 32 0)))))
                 else None)
          (Buffer (written (replicate 32 0)
                     (snd (tox_get_salt (getLibrary this) d (replicate 32 0)))))]))"
  by (auto simp: TOX_SALT_LENGTH_def getSaltSync_def sync_defs error_defs split_beta
        getSalt_def entry_defs getSalt_run nonZero_def async_written_def)

text \<open>
  Five bytes are refused with code -1; eighty-five bytes give a salt of 32 bytes.
\<close>

theorem getSalt_fixed_length_witness:
  "getSaltSync ClampNegativeSize bare_instance five_bytes [] =
     (Inl (NonZeroReturnError ''tox_get_salt'' (Number (- 1))), [Alloc 32, Call ''tox_get_salt'']) \<and>
   (\<exists>out T. getSaltSync ClampNegativeSize bare_instance sealed_bytes [] = (Inr out, T) \<and>
      int (length out) = 32)"
proof -
  note short = getSalt_fixed_length [of ClampNegativeSize bare_instance five_bytes, THEN conjunct2, THEN conjunct1]
  note long = getSalt_fixed_length [of ClampNegativeSize bare_instance sealed_bytes, THEN conjunct2]
  have "getSaltSync ClampNegativeSize bare_instance five_bytes [] =
     (Inl (NonZeroReturnError ''tox_get_salt'' (Number (- 1))), [Alloc 32, Call ''tox_get_salt''])"
    by (simp only: short) (simp add: bare_instance_fields mock_library_def five_bytes_def
          TOX_SALT_LENGTH_def)
  moreover have "getSaltSync ClampNegativeSize bare_instance sealed_bytes [] =
     (Inr (written (replicate 32 0) (take 32 (drop 8 sealed_bytes))),
      [Alloc 32, Call ''tox_get_salt''])"
    by (simp only: long [THEN conjunct1]) (simp add: bare_instance_fields mock_library_def
          length_sealed_bytes TOX_SALT_LENGTH_def)
  ultimately show ?thesis
    by simp
qed

subsection \<open>C9: the encrypted-data predicate\<close>

text \<open>
  Claim C9. \<open>isDataEncryptedSync\<close> returns, and \<open>isDataEncrypted\<close> hands to
  the handler, the boolean that is true exactly when \<open>tox_is_data_encrypted\<close>
  returns 1. Neither makes an error out of the primitive's result: the blocking function
  never throws, and the handler's error is the binding's own or none.
\<close>

theorem isDataEncrypted_boolean:
  "isDataEncryptedSync this d [] =
     (Inr (tox_is_data_encrypted (getLibrary this) d = 1), [Call ''tox_is_data_encrypted'']) \<and>
   isDataEncrypted this d (Some handler) [] =
     (Inr Undefined,
      [Call ''tox_is_data_encrypted'',
       Handler (async_error (getLibrary this) ''tox_is_data_encrypted'')
         (if async_error (getLibrary this) ''tox_is_data_encrypted'' = None
          then Boolean (tox_is_data_encrypted (getLibrary this) d = 1) else Undefined)])"
  by (simp add: isDataEncryptedSync_def sync_defs isDataEncrypted_def entry_defs
        isDataEncrypted_run)

text \<open>
  Five bytes are not encrypted data for the example library, eighty-five bytes are.
\<close>

theorem isDataEncrypted_boolean_witness:
  "isDataEncryptedSync bare_instance five_bytes [] = (Inr False, [Call ''tox_is_data_encrypted'']) \<and>
   isDataEncrypted bare_instance sealed_bytes (Some handler) [] =
     (Inr Undefined, [Call ''tox_is_data_encrypted'', Handler None (Boolean True)])"
  using isDataEncrypted_boolean [of bare_instance five_bytes] isDataEncrypted_boolean [of bare_instance sealed_bytes]
  by (simp add: bare_instance_fields mock_library_def five_bytes_def length_sealed_bytes)

subsection \<open>C10: a failing length or size query\<close>

text \<open>
  Claim C10. For the eight operations that first query a length or size
  (\<open>preliminary\<close>), called with a handler and, where the operation is handle-bound,
  with a handle: when the binding reports an error for the query, the only events are
  the query and one call of the handler with that error and \<open>undefined\<close>; the
  main primitive is not called.
\<close>

theorem preliminary_query_failure:
  assumes "preliminary op = Some q"
    and "async_error (getLibrary this) q = Some e"
    and "handle_bound op \<longrightarrow> getHandle this \<noteq> None"
  shows "invoke rt this op (Some handler) [] = (Inr Undefined, [Call q, Handler (Some e) Undefined]) \<and>
         main_primitive op \<notin> set (calls (snd (invoke rt this op (Some handler) [])))"
  using assms unfolding invoke_with_handler
  by (cases op) (auto simp: run_lemmas two_step_trace_def calls_def)

text \<open>
  \<open>encryptedSave\<close> over a binding whose size query fails.
\<close>

theorem preliminary_query_failure_witness:
  "invoke ClampNegativeSize (tox_instance (failing_library ''tox_encrypted_size''))
      (EncryptedSave (Str ''pw'')) (Some handler) [] =
     (Inr Undefined, [Call ''tox_encrypted_size'', Handler (Some (Error ''boom'')) Undefined])"
  using preliminary_query_failure [of "EncryptedSave (Str ''pw'')" "''tox_encrypted_size''"
      "tox_instance (failing_library ''tox_encrypted_size'')" "Error ''boom''" ClampNegativeSize]
  by (simp add: tox_instance_fields failing_library_def)

end
